theory Spec2Isabelle
  imports Main "HOL-Library.Multiset"
begin

section \<open>Entity schema (shared/schema.ts)\<close>

text \<open>
  Every table of the schema is a list of rows in insertion order. A \<open>serial\<close> id is a
  natural number, a \<open>timestamp\<close> is an integer (milliseconds), a nullable column is an
  \<open>option\<close>. The three \<open>pgEnum\<close> domains are datatypes.
\<close>

datatype petType = Dog | Cat

datatype category = Meat | Poultry | Fish | Treats

datatype cookingType = Raw | Cooked | Baked | Mixed

record user =
  u_id :: nat
  u_username :: string
  u_email :: string
  u_password :: string
  u_firstName :: "string option"
  u_lastName :: "string option"
  u_state :: "string option"
  u_city :: "string option"
  u_profileImageUrl :: "string option"
  u_createdAt :: int
  u_updatedAt :: int

record pet =
  p_id :: nat
  p_userId :: nat
  p_name :: string
  p_type :: petType
  p_breed :: "string option"
  p_age :: "int option"
  p_weight :: "int option"
  p_profileImageUrl :: "string option"
  p_createdAt :: int
  p_updatedAt :: int

record recipe =
  r_id :: nat
  r_userId :: nat
  r_title :: string
  r_ingredients :: string
  r_instructions :: string
  r_petType :: petType
  r_category :: category
  r_cookingType :: cookingType
  r_prepTime :: int
  r_imageUrl :: "string option"
  r_youtubeUrl :: "string option"
  r_cookCount :: int
  r_createdAt :: int
  r_updatedAt :: int

record comment =
  c_id :: nat
  c_userId :: nat
  c_recipeId :: nat
  c_parentId :: "nat option"
  c_content :: string
  c_createdAt :: int
  c_updatedAt :: int

record favorite =
  f_id :: nat
  f_userId :: nat
  f_recipeId :: nat
  f_createdAt :: int

record follower =
  fl_id :: nat
  fl_followerId :: nat
  fl_followingId :: nat
  fl_createdAt :: int

text \<open>
  The database: the six tables and the six \<open>serial\<close> sequences behind their ids.
\<close>

record db =
  users :: "user list"
  pets :: "pet list"
  recipes :: "recipe list"
  comments :: "comment list"
  favorites :: "favorite list"
  followers :: "follower list"
  users_seq :: nat
  pets_seq :: nat
  recipes_seq :: nat
  comments_seq :: nat
  favorites_seq :: nat
  followers_seq :: nat

text \<open>
  What the database engine reports back to the storage layer when a statement is
  rejected. \<open>UniqueViolation\<close> is the spec's \<open>DuplicateKey\<close> signal.
\<close>

datatype error =
    UniqueViolation
  | ForeignKeyViolation
  | InvalidTextRepresentation
  | InvalidRowCount

section \<open>SQL expressions used by the storage layer\<close>

text \<open>
  \<open>like(column, pattern)\<close> is SQL \<open>LIKE\<close>: \<open>%\<close> stands for any run of characters,
  \<open>_\<close> for any one character, a backslash makes the next pattern character literal;
  every other character stands for itself (case-sensitive). First argument: the
  pattern; second: the column's text.
\<close>

fun like_match :: "string \<Rightarrow> string \<Rightarrow> bool" where
  "like_match [] [] = True"
| "like_match [] (c # cs) = False"
| "like_match (p # ps) [] = (p = CHR ''%'' \<and> like_match ps [])"
| "like_match (p # ps) (c # cs) =
     (if p = CHR ''%'' then like_match ps (c # cs) \<or> like_match (p # ps) cs
      else if p = CHR ''_'' then like_match ps cs
      else if p = CHR 0x5C then
        (case ps of [] \<Rightarrow> False | q # qs \<Rightarrow> q = c \<and> like_match qs cs)
      else p = c \<and> like_match ps cs)"

text \<open>The labels of the two enum columns a recipe query compares against.\<close>

definition petType_of_label :: "string \<Rightarrow> petType option" where
  "petType_of_label s =
     (if s = ''dog'' then Some Dog else if s = ''cat'' then Some Cat else None)"

definition category_of_label :: "string \<Rightarrow> category option" where
  "category_of_label s =
     (if s = ''meat'' then Some Meat else if s = ''poultry'' then Some Poultry
      else if s = ''fish'' then Some Fish else if s = ''treats'' then Some Treats
      else None)"

text \<open>
  The conditions \<open>getRecipes\<close> builds: \<open>eq(recipes.petType, v)\<close>,
  \<open>eq(recipes.category, v)\<close>, \<open>like(recipes.title, p)\<close>,
  \<open>like(recipes.ingredients, p)\<close> and \<open>or(a, b)\<close>.
\<close>

datatype recipe_cond =
    Eq_petType string
  | Eq_category string
  | Like_title string
  | Like_ingredients string
  | Or recipe_cond recipe_cond

text \<open>
  A string compared with an enum column is sent as a parameter of the enum's type: a
  string that is no label of the enum makes the engine reject the whole statement.
\<close>

fun cond_wellformed :: "recipe_cond \<Rightarrow> bool" where
  "cond_wellformed (Eq_petType v) = (petType_of_label v \<noteq> None)"
| "cond_wellformed (Eq_category v) = (category_of_label v \<noteq> None)"
| "cond_wellformed (Like_title p) = True"
| "cond_wellformed (Like_ingredients p) = True"
| "cond_wellformed (Or a b) = (cond_wellformed a \<and> cond_wellformed b)"

fun cond_holds :: "recipe_cond \<Rightarrow> recipe \<Rightarrow> bool" where
  "cond_holds (Eq_petType v) r = (petType_of_label v = Some (r_petType r))"
| "cond_holds (Eq_category v) r = (category_of_label v = Some (r_category r))"
| "cond_holds (Like_title p) r = like_match p (r_title r)"
| "cond_holds (Like_ingredients p) r = like_match p (r_ingredients r)"
| "cond_holds (Or a b) r = (cond_holds a r \<or> cond_holds b r)"

section \<open>The select query builder\<close>

text \<open>
  \<open>db.select().from(recipes)\<close> returns a builder object that holds one configuration:
  one \<open>where\<close> condition, one ordering, one limit, one offset. Each builder method
  assigns its slot of the configuration and returns the same builder; in particular
  \<open>.where(c)\<close> assigns the single \<open>where\<close> slot, so a later \<open>.where\<close> replaces an
  earlier one. The statement is sent when the builder is awaited: rows are filtered by
  the \<open>where\<close> slot, then ordered, then \<open>offset\<close> rows are skipped and at most \<open>limit\<close>
  rows returned, whatever the order of the builder calls. The builder writes a
  \<open>LIMIT\<close> clause only for a limit that is not negative (a negative limit returns all
  rows); a negative offset is written out and rejected by the engine.
\<close>

record select_config =
  sc_where :: "recipe_cond option"
  sc_orderBy_desc_createdAt :: bool
  sc_limit :: "int option"
  sc_offset :: "int option"

definition select_from_recipes :: select_config where
  "select_from_recipes =
     \<lparr>sc_where = None, sc_orderBy_desc_createdAt = False, sc_limit = None, sc_offset = None\<rparr>"

definition orderBy_desc_createdAt :: "select_config \<Rightarrow> select_config" where
  "orderBy_desc_createdAt q = q\<lparr>sc_orderBy_desc_createdAt := True\<rparr>"

definition limit_rows :: "int \<Rightarrow> select_config \<Rightarrow> select_config" where
  "limit_rows n q = q\<lparr>sc_limit := Some n\<rparr>"

definition offset_rows :: "int \<Rightarrow> select_config \<Rightarrow> select_config" where
  "offset_rows n q = q\<lparr>sc_offset := Some n\<rparr>"

definition where_cond :: "recipe_cond \<Rightarrow> select_config \<Rightarrow> select_config" where
  "where_cond c q = q\<lparr>sc_where := Some c\<rparr>"

text \<open>
  Newest first: descending \<open>createdAt\<close>. Rows with equal timestamps keep their table
  order (the engine promises no order among them; no theorem below depends on it).
\<close>

definition newest_first :: "('a \<Rightarrow> int) \<Rightarrow> 'a list \<Rightarrow> 'a list" where
  "newest_first createdAt rows = sort_key (\<lambda>r. - createdAt r) rows"

definition paginate :: "select_config \<Rightarrow> recipe list \<Rightarrow> error + recipe list" where
  "paginate q rows =
     (let ordered = (if sc_orderBy_desc_createdAt q then newest_first r_createdAt rows else rows);
          off = (case sc_offset q of Some n \<Rightarrow> n | None \<Rightarrow> 0)
      in if off < 0 then Inl InvalidRowCount
         else (case sc_limit q of
                 None \<Rightarrow> Inr (drop (nat off) ordered)
               | Some l \<Rightarrow> if l < 0 then Inr (drop (nat off) ordered)
                          else Inr (take (nat l) (drop (nat off) ordered))))"

definition run_select :: "select_config \<Rightarrow> recipe list \<Rightarrow> error + recipe list" where
  "run_select q rows =
     (case sc_where q of
        Some c \<Rightarrow> if \<not> cond_wellformed c then Inl InvalidTextRepresentation
                  else paginate q (filter (cond_holds c) rows)
      | None \<Rightarrow> paginate q rows)"

section \<open>Storage layer: recipe queries\<close>

text \<open>
  The \<open>options\<close> argument of \<open>getRecipes\<close>; an absent field is \<open>None\<close> (an absent
  \<open>options\<close> object is the record of five absent fields). The guards
  \<open>if (options?.petType)\<close> and \<open>options?.limit || 10\<close> are JavaScript truthiness: the
  empty string and the number 0 count as absent.
\<close>

record recipe_options =
  o_petType :: "string option"
  o_category :: "string option"
  o_search :: "string option"
  o_page :: "int option"
  o_limit :: "int option"

definition truthy_string :: "string option \<Rightarrow> bool" where
  "truthy_string v = (case v of None \<Rightarrow> False | Some s \<Rightarrow> s \<noteq> [])"

definition truthy_number :: "int option \<Rightarrow> bool" where
  "truthy_number v = (case v of None \<Rightarrow> False | Some n \<Rightarrow> n \<noteq> 0)"

definition getRecipes :: "recipe_options \<Rightarrow> db \<Rightarrow> error + recipe list" where
  "getRecipes options d =
     (let limit = (if truthy_number (o_limit options) then the (o_limit options) else 10);
          offset = (if truthy_number (o_page options)
                    then (the (o_page options) - 1) * limit else 0);
          query0 = offset_rows offset
                     (limit_rows limit (orderBy_desc_createdAt select_from_recipes));
          query1 = (if truthy_string (o_petType options)
                    then where_cond (Eq_petType (the (o_petType options))) query0
                    else query0);
          query2 = (if truthy_string (o_category options)
                    then where_cond (Eq_category (the (o_category options))) query1
                    else query1);
          query3 = (if truthy_string (o_search options)
                    then where_cond
                           (Or (Like_title (''%'' @ the (o_search options) @ ''%''))
                               (Like_ingredients (''%'' @ the (o_search options) @ ''%'')))
                           query2
                    else query2)
      in run_select query3 (recipes d))"

section \<open>Storage layer: users\<close>

text \<open>
  A user as the storage layer hands it out: a JavaScript object with the row's columns,
  where the \<open>password\<close> key may have been removed. \<open>uo_password = None\<close> says that the
  object has no \<open>password\<close> key.
\<close>

record user_object =
  uo_id :: nat
  uo_username :: string
  uo_email :: string
  uo_password :: "string option"
  uo_firstName :: "string option"
  uo_lastName :: "string option"
  uo_state :: "string option"
  uo_city :: "string option"
  uo_profileImageUrl :: "string option"
  uo_createdAt :: int
  uo_updatedAt :: int

definition row_object :: "user \<Rightarrow> user_object" where
  "row_object u =
     \<lparr>uo_id = u_id u, uo_username = u_username u, uo_email = u_email u,
      uo_password = Some (u_password u), uo_firstName = u_firstName u,
      uo_lastName = u_lastName u, uo_state = u_state u, uo_city = u_city u,
      uo_profileImageUrl = u_profileImageUrl u, uo_createdAt = u_createdAt u,
      uo_updatedAt = u_updatedAt u\<rparr>"

text \<open>\<open>const { password, ...userWithoutPassword } = user\<close>\<close>

definition userWithoutPassword :: "user_object \<Rightarrow> user_object" where
  "userWithoutPassword u = u\<lparr>uo_password := None\<rparr>"

text \<open>\<open>const [row] = await query\<close>: the first row of the result, or undefined.\<close>

definition first_row :: "'a list \<Rightarrow> 'a option" where
  "first_row rows = (case rows of [] \<Rightarrow> None | r # _ \<Rightarrow> Some r)"

definition getUser :: "nat \<Rightarrow> db \<Rightarrow> user_object option" where
  "getUser i d =
     (case first_row (filter (\<lambda>u. u_id u = i) (users d)) of
        Some u \<Rightarrow> Some (userWithoutPassword (row_object u))
      | None \<Rightarrow> None)"

definition getUserByUsername :: "string \<Rightarrow> db \<Rightarrow> user_object option" where
  "getUserByUsername username d =
     map_option row_object (first_row (filter (\<lambda>u. u_username u = username) (users d)))"

definition getUserByEmail :: "string \<Rightarrow> db \<Rightarrow> user_object option" where
  "getUserByEmail email d =
     map_option row_object (first_row (filter (\<lambda>u. u_email u = email) (users d)))"

text \<open>
  The values of an insert: the columns of the insertion contract (\<open>insertUserSchema\<close>:
  every column but \<open>id\<close>, \<open>createdAt\<close>, \<open>updatedAt\<close>, which the database assigns from
  the sequence and from \<open>defaultNow()\<close>). An optional column left out is stored as null.
\<close>

record insert_user =
  iu_username :: string
  iu_email :: string
  iu_password :: string
  iu_firstName :: "string option"
  iu_lastName :: "string option"
  iu_state :: "string option"
  iu_city :: "string option"
  iu_profileImageUrl :: "string option"

text \<open>
  \<open>bcrypt.hash(password, 10)\<close> is a call into the bcrypt library: the storage functions
  that hash take it as their first argument \<open>hash\<close> (plaintext and cost to stored string).

  An insert draws the next value of the table's sequence (also when the row is then
  rejected), and is rejected with \<open>UniqueViolation\<close> when the id, or a column declared
  \<open>.unique()\<close>, already holds the new row's value. \<open>now\<close> is the clock at the call.
\<close>

definition createUser ::
  "(string \<Rightarrow> nat \<Rightarrow> string) \<Rightarrow> int \<Rightarrow> insert_user \<Rightarrow> db \<Rightarrow> (error + user_object) \<times> db" where
  "createUser hash now userData d =
     (let hashedPassword = hash (iu_password userData) 10;
          d1 = d\<lparr>users_seq := Suc (users_seq d)\<rparr>;
          row = \<lparr>u_id = Suc (users_seq d), u_username = iu_username userData,
                 u_email = iu_email userData, u_password = hashedPassword,
                 u_firstName = iu_firstName userData, u_lastName = iu_lastName userData,
                 u_state = iu_state userData, u_city = iu_city userData,
                 u_profileImageUrl = iu_profileImageUrl userData,
                 u_createdAt = now, u_updatedAt = now\<rparr>
      in if \<exists>u \<in> set (users d). u_id u = u_id row \<or> u_username u = u_username row
                                    \<or> u_email u = u_email row
         then (Inl UniqueViolation, d1)
         else (Inr (userWithoutPassword (row_object row)), d1\<lparr>users := users d @ [row]\<rparr>))"

text \<open>
  \<open>Partial<InsertUser>\<close>, the argument of \<open>updateUser\<close>: \<open>InsertUser\<close> is the insert type
  of the table, so every column of \<open>users\<close> may be supplied, \<open>id\<close>, \<open>createdAt\<close> and
  \<open>updatedAt\<close> included (\<open>None\<close>: the key is absent or undefined, and the column is left
  alone). For a nullable column a supplied value is itself a string or null.
\<close>

record partial_user =
  pu_id :: "nat option"
  pu_username :: "string option"
  pu_email :: "string option"
  pu_password :: "string option"
  pu_firstName :: "string option option"
  pu_lastName :: "string option option"
  pu_state :: "string option option"
  pu_city :: "string option option"
  pu_profileImageUrl :: "string option option"
  pu_createdAt :: "int option"
  pu_updatedAt :: "int option"

definition supplied :: "'a option \<Rightarrow> 'a \<Rightarrow> 'a" where
  "supplied v old = (case v of None \<Rightarrow> old | Some new \<Rightarrow> new)"

text \<open>
  \<open>.set({ ...userData, updatedAt: new Date() })\<close>: every supplied key is set; the key
  \<open>updatedAt\<close> written after the spread replaces a supplied \<open>updatedAt\<close>.
\<close>

definition set_user :: "partial_user \<Rightarrow> int \<Rightarrow> user \<Rightarrow> user" where
  "set_user userData now u =
     u\<lparr>u_id := supplied (pu_id userData) (u_id u),
       u_username := supplied (pu_username userData) (u_username u),
       u_email := supplied (pu_email userData) (u_email u),
       u_password := supplied (pu_password userData) (u_password u),
       u_firstName := supplied (pu_firstName userData) (u_firstName u),
       u_lastName := supplied (pu_lastName userData) (u_lastName u),
       u_state := supplied (pu_state userData) (u_state u),
       u_city := supplied (pu_city userData) (u_city u),
       u_profileImageUrl := supplied (pu_profileImageUrl userData) (u_profileImageUrl u),
       u_createdAt := supplied (pu_createdAt userData) (u_createdAt u),
       u_updatedAt := now\<rparr>"

text \<open>
  The rows of the other tables that reference a user id. Their foreign keys declare no
  action for an update of the referenced id, so changing the id of a referenced user is
  rejected with \<open>ForeignKeyViolation\<close>.
\<close>

definition user_referenced :: "nat \<Rightarrow> db \<Rightarrow> bool" where
  "user_referenced i d \<longleftrightarrow>
     (\<exists>p \<in> set (pets d). p_userId p = i) \<or> (\<exists>r \<in> set (recipes d). r_userId r = i) \<or>
     (\<exists>c \<in> set (comments d). c_userId c = i) \<or> (\<exists>f \<in> set (favorites d). f_userId f = i) \<or>
     (\<exists>fl \<in> set (followers d). fl_followerId fl = i \<or> fl_followingId fl = i)"

text \<open>
  An update rewrites the rows the \<open>where\<close> selects and returns them. It is rejected
  with \<open>UniqueViolation\<close> when it changes the \<open>id\<close>, \<open>username\<close> or \<open>email\<close> of a row to
  that of another row.
\<close>

definition updateUser ::
  "(string \<Rightarrow> nat \<Rightarrow> string) \<Rightarrow> int \<Rightarrow> nat \<Rightarrow> partial_user \<Rightarrow> db
     \<Rightarrow> (error + user_object option) \<times> db" where
  "updateUser hash now i userData0 d =
     (let userData = (if truthy_string (pu_password userData0)
                      then userData0\<lparr>pu_password := Some (hash (the (pu_password userData0)) 10)\<rparr>
                      else userData0);
          rewritten = map (set_user userData now) (filter (\<lambda>u. u_id u = i) (users d));
          others = filter (\<lambda>u. u_id u \<noteq> i) (users d)
      in if \<exists>old \<in> set (users d). \<exists>u \<in> set others. u_id old = i \<and>
              (u_id (set_user userData now old) \<noteq> u_id old \<and>
                 u_id u = u_id (set_user userData now old)
               \<or> u_username (set_user userData now old) \<noteq> u_username old \<and>
                 u_username u = u_username (set_user userData now old)
               \<or> u_email (set_user userData now old) \<noteq> u_email old \<and>
                 u_email u = u_email (set_user userData now old))
         then (Inl UniqueViolation, d)
         else if \<exists>old \<in> set (users d). u_id old = i \<and>
              u_id (set_user userData now old) \<noteq> u_id old \<and> user_referenced i d
         then (Inl ForeignKeyViolation, d)
         else (Inr (case first_row rewritten of
                      Some u \<Rightarrow> Some (userWithoutPassword (row_object u))
                    | None \<Rightarrow> None),
               d\<lparr>users := map (\<lambda>u. if u_id u = i then set_user userData now u else u)
                                (users d)\<rparr>))"

section \<open>Storage layer: pets\<close>

definition getPet :: "nat \<Rightarrow> db \<Rightarrow> pet option" where
  "getPet i d = first_row (filter (\<lambda>p. p_id p = i) (pets d))"

definition getPetsByUser :: "nat \<Rightarrow> db \<Rightarrow> pet list" where
  "getPetsByUser userId d = filter (\<lambda>p. p_userId p = userId) (pets d)"

record insert_pet =
  ip_userId :: nat
  ip_name :: string
  ip_type :: petType
  ip_breed :: "string option"
  ip_age :: "int option"
  ip_weight :: "int option"
  ip_profileImageUrl :: "string option"

text \<open>
  A column declared \<open>.references(() => users.id)\<close> must hold the id of a row of
  \<open>users\<close>: an insert that breaks this, or an update that changes the column to
  such a value, is rejected with \<open>ForeignKeyViolation\<close>.
\<close>

definition user_exists :: "nat \<Rightarrow> db \<Rightarrow> bool" where
  "user_exists i d = (\<exists>u \<in> set (users d). u_id u = i)"

definition recipe_exists :: "nat \<Rightarrow> db \<Rightarrow> bool" where
  "recipe_exists i d = (\<exists>r \<in> set (recipes d). r_id r = i)"

definition comment_exists :: "nat \<Rightarrow> db \<Rightarrow> bool" where
  "comment_exists i d = (\<exists>c \<in> set (comments d). c_id c = i)"

definition createPet :: "int \<Rightarrow> insert_pet \<Rightarrow> db \<Rightarrow> (error + pet) \<times> db" where
  "createPet now petData d =
     (let d1 = d\<lparr>pets_seq := Suc (pets_seq d)\<rparr>;
          row = \<lparr>p_id = Suc (pets_seq d), p_userId = ip_userId petData,
                 p_name = ip_name petData, p_type = ip_type petData,
                 p_breed = ip_breed petData, p_age = ip_age petData,
                 p_weight = ip_weight petData,
                 p_profileImageUrl = ip_profileImageUrl petData,
                 p_createdAt = now, p_updatedAt = now\<rparr>
      in if \<exists>p \<in> set (pets d). p_id p = p_id row then (Inl UniqueViolation, d1)
         else if \<not> user_exists (p_userId row) d then (Inl ForeignKeyViolation, d1)
         else (Inr row, d1\<lparr>pets := pets d @ [row]\<rparr>))"

record partial_pet =
  pp_id :: "nat option"
  pp_userId :: "nat option"
  pp_name :: "string option"
  pp_type :: "petType option"
  pp_breed :: "string option option"
  pp_age :: "int option option"
  pp_weight :: "int option option"
  pp_profileImageUrl :: "string option option"
  pp_createdAt :: "int option"
  pp_updatedAt :: "int option"

definition set_pet :: "partial_pet \<Rightarrow> int \<Rightarrow> pet \<Rightarrow> pet" where
  "set_pet petData now p =
     p\<lparr>p_id := supplied (pp_id petData) (p_id p),
       p_userId := supplied (pp_userId petData) (p_userId p),
       p_name := supplied (pp_name petData) (p_name p),
       p_type := supplied (pp_type petData) (p_type p),
       p_breed := supplied (pp_breed petData) (p_breed p),
       p_age := supplied (pp_age petData) (p_age p),
       p_weight := supplied (pp_weight petData) (p_weight p),
       p_profileImageUrl := supplied (pp_profileImageUrl petData) (p_profileImageUrl p),
       p_createdAt := supplied (pp_createdAt petData) (p_createdAt p),
       p_updatedAt := now\<rparr>"

definition updatePet :: "int \<Rightarrow> nat \<Rightarrow> partial_pet \<Rightarrow> db \<Rightarrow> (error + pet option) \<times> db" where
  "updatePet now i petData d =
     (let rewritten = map (set_pet petData now) (filter (\<lambda>p. p_id p = i) (pets d));
          others = filter (\<lambda>p. p_id p \<noteq> i) (pets d)
      in if \<exists>old \<in> set (pets d). \<exists>p \<in> set others. p_id old = i \<and>
              p_id (set_pet petData now old) \<noteq> p_id old \<and>
              p_id p = p_id (set_pet petData now old)
         then (Inl UniqueViolation, d)
         else if \<exists>old \<in> set (pets d). p_id old = i \<and>
              p_userId (set_pet petData now old) \<noteq> p_userId old \<and>
              \<not> user_exists (p_userId (set_pet petData now old)) d
         then (Inl ForeignKeyViolation, d)
         else (Inr (first_row rewritten),
               d\<lparr>pets := map (\<lambda>p. if p_id p = i then set_pet petData now p else p)
                               (pets d)\<rparr>))"

definition deletePet :: "nat \<Rightarrow> db \<Rightarrow> bool \<times> db" where
  "deletePet i d = (True, d\<lparr>pets := filter (\<lambda>p. p_id p \<noteq> i) (pets d)\<rparr>)"

section \<open>Storage layer: recipes\<close>

definition getRecipe :: "nat \<Rightarrow> db \<Rightarrow> recipe option" where
  "getRecipe i d = first_row (filter (\<lambda>r. r_id r = i) (recipes d))"

definition getRecipesByUser :: "nat \<Rightarrow> db \<Rightarrow> recipe list" where
  "getRecipesByUser userId d =
     newest_first r_createdAt (filter (\<lambda>r. r_userId r = userId) (recipes d))"

record insert_recipe =
  ir_userId :: nat
  ir_title :: string
  ir_ingredients :: string
  ir_instructions :: string
  ir_petType :: petType
  ir_category :: category
  ir_cookingType :: cookingType
  ir_prepTime :: int
  ir_imageUrl :: "string option"
  ir_youtubeUrl :: "string option"

definition createRecipe :: "int \<Rightarrow> insert_recipe \<Rightarrow> db \<Rightarrow> (error + recipe) \<times> db" where
  "createRecipe now recipeData d =
     (let d1 = d\<lparr>recipes_seq := Suc (recipes_seq d)\<rparr>;
          row = \<lparr>r_id = Suc (recipes_seq d), r_userId = ir_userId recipeData,
                 r_title = ir_title recipeData, r_ingredients = ir_ingredients recipeData,
                 r_instructions = ir_instructions recipeData,
                 r_petType = ir_petType recipeData, r_category = ir_category recipeData,
                 r_cookingType = ir_cookingType recipeData,
                 r_prepTime = ir_prepTime recipeData, r_imageUrl = ir_imageUrl recipeData,
                 r_youtubeUrl = ir_youtubeUrl recipeData, r_cookCount = 0,
                 r_createdAt = now, r_updatedAt = now\<rparr>
      in if \<exists>r \<in> set (recipes d). r_id r = r_id row then (Inl UniqueViolation, d1)
         else if \<not> user_exists (r_userId row) d then (Inl ForeignKeyViolation, d1)
         else (Inr row, d1\<lparr>recipes := recipes d @ [row]\<rparr>))"

record partial_recipe =
  pr_id :: "nat option"
  pr_userId :: "nat option"
  pr_title :: "string option"
  pr_ingredients :: "string option"
  pr_instructions :: "string option"
  pr_petType :: "petType option"
  pr_category :: "category option"
  pr_cookingType :: "cookingType option"
  pr_prepTime :: "int option"
  pr_imageUrl :: "string option option"
  pr_youtubeUrl :: "string option option"
  pr_cookCount :: "int option"
  pr_createdAt :: "int option"
  pr_updatedAt :: "int option"

definition set_recipe :: "partial_recipe \<Rightarrow> int \<Rightarrow> recipe \<Rightarrow> recipe" where
  "set_recipe recipeData now r =
     r\<lparr>r_id := supplied (pr_id recipeData) (r_id r),
       r_userId := supplied (pr_userId recipeData) (r_userId r),
       r_title := supplied (pr_title recipeData) (r_title r),
       r_ingredients := supplied (pr_ingredients recipeData) (r_ingredients r),
       r_instructions := supplied (pr_instructions recipeData) (r_instructions r),
       r_petType := supplied (pr_petType recipeData) (r_petType r),
       r_category := supplied (pr_category recipeData) (r_category r),
       r_cookingType := supplied (pr_cookingType recipeData) (r_cookingType r),
       r_prepTime := supplied (pr_prepTime recipeData) (r_prepTime r),
       r_imageUrl := supplied (pr_imageUrl recipeData) (r_imageUrl r),
       r_youtubeUrl := supplied (pr_youtubeUrl recipeData) (r_youtubeUrl r),
       r_cookCount := supplied (pr_cookCount recipeData) (r_cookCount r),
       r_createdAt := supplied (pr_createdAt recipeData) (r_createdAt r),
       r_updatedAt := now\<rparr>"

text \<open>
  The comments and favorites that reference a recipe id: changing the id of a
  referenced recipe is rejected with \<open>ForeignKeyViolation\<close>.
\<close>

definition recipe_referenced :: "nat \<Rightarrow> db \<Rightarrow> bool" where
  "recipe_referenced i d \<longleftrightarrow>
     (\<exists>c \<in> set (comments d). c_recipeId c = i) \<or> (\<exists>f \<in> set (favorites d). f_recipeId f = i)"

definition updateRecipe ::
  "int \<Rightarrow> nat \<Rightarrow> partial_recipe \<Rightarrow> db \<Rightarrow> (error + recipe option) \<times> db" where
  "updateRecipe now i recipeData d =
     (let rewritten = map (set_recipe recipeData now) (filter (\<lambda>r. r_id r = i) (recipes d));
          others = filter (\<lambda>r. r_id r \<noteq> i) (recipes d)
      in if \<exists>old \<in> set (recipes d). \<exists>r \<in> set others. r_id old = i \<and>
              r_id (set_recipe recipeData now old) \<noteq> r_id old \<and>
              r_id r = r_id (set_recipe recipeData now old)
         then (Inl UniqueViolation, d)
         else if \<exists>old \<in> set (recipes d). r_id old = i \<and>
              (r_userId (set_recipe recipeData now old) \<noteq> r_userId old \<and>
                 \<not> user_exists (r_userId (set_recipe recipeData now old)) d
               \<or> r_id (set_recipe recipeData now old) \<noteq> r_id old \<and> recipe_referenced i d)
         then (Inl ForeignKeyViolation, d)
         else (Inr (first_row rewritten),
               d\<lparr>recipes := map (\<lambda>r. if r_id r = i then set_recipe recipeData now r else r)
                                  (recipes d)\<rparr>))"

text \<open>
  Deleting rows of \<open>comments\<close>: \<open>parentId\<close> references \<open>comments.id\<close> with
  \<open>onDelete: "cascade"\<close>, so the replies to a deleted comment are deleted with it, and
  their replies in turn. \<open>cascade_replies dead cs\<close> removes from \<open>cs\<close> every comment
  below one of the deleted ids \<open>dead\<close>.
\<close>

definition reply_to :: "nat list \<Rightarrow> comment \<Rightarrow> bool" where
  "reply_to dead c = (case c_parentId c of None \<Rightarrow> False | Some p \<Rightarrow> p \<in> set dead)"

function cascade_replies :: "nat list \<Rightarrow> comment list \<Rightarrow> comment list" where
  "cascade_replies dead cs =
     (if filter (reply_to dead) cs = [] then cs
      else cascade_replies (map c_id (filter (reply_to dead) cs))
             (filter (\<lambda>c. \<not> reply_to dead c) cs))"
  by pat_completeness auto
termination
proof (relation "measure (\<lambda>(dead, cs). length cs)")
  show "wf (measure (\<lambda>(dead, cs). length cs))" by simp
next
  fix dead :: "nat list" and cs :: "comment list"
  assume "filter (reply_to dead) cs \<noteq> []"
  then have "0 < length (filter (reply_to dead) cs)" by simp
  moreover have "length (filter (reply_to dead) cs)
      + length (filter (\<lambda>c. \<not> reply_to dead c) cs) = length cs"
    by (rule sum_length_filter_compl)
  ultimately have "length (filter (\<lambda>c. \<not> reply_to dead c) cs) < length cs" by arith
  then show "((map c_id (filter (reply_to dead) cs), filter (\<lambda>c. \<not> reply_to dead c) cs),
                (dead, cs)) \<in> measure (\<lambda>(dead, cs). length cs)"
    by simp
qed

declare cascade_replies.simps [simp del]

definition delete_comments :: "(comment \<Rightarrow> bool) \<Rightarrow> comment list \<Rightarrow> comment list" where
  "delete_comments doomed cs =
     cascade_replies (map c_id (filter doomed cs)) (filter (\<lambda>c. \<not> doomed c) cs)"

text \<open>
  \<open>comments.recipeId\<close> and \<open>favorites.recipeId\<close> reference \<open>recipes.id\<close> with
  \<open>onDelete: "cascade"\<close>: the comments and favorites of a deleted recipe go with it.
\<close>

definition delete_recipes :: "(recipe \<Rightarrow> bool) \<Rightarrow> db \<Rightarrow> db" where
  "delete_recipes doomed d =
     (let dead = map r_id (filter doomed (recipes d))
      in d\<lparr>recipes := filter (\<lambda>r. \<not> doomed r) (recipes d),
           comments := delete_comments (\<lambda>c. c_recipeId c \<in> set dead) (comments d),
           favorites := filter (\<lambda>f. f_recipeId f \<notin> set dead) (favorites d)\<rparr>)"

definition deleteRecipe :: "nat \<Rightarrow> db \<Rightarrow> bool \<times> db" where
  "deleteRecipe i d = (True, delete_recipes (\<lambda>r. r_id r = i) d)"

text \<open>
  \<open>incrementCookCount\<close> passes \<open>recipes.cookCount + 1\<close> to \<open>.set\<close>. This is
  JavaScript's \<open>+\<close>, evaluated before the builder sees anything, on the column object
  \<open>recipes.cookCount\<close> and the number 1: one value, computed once, that cannot depend
  on the count a row holds (an expression over the column would be an \<open>sql\<close> template,
  not a JavaScript sum). The values in play:
\<close>

datatype js_value = JS_number int | JS_string string | JS_object

fun digit_char :: "nat \<Rightarrow> char" where
  "digit_char n = char_of (48 + n)"

fun string_of_nat :: "nat \<Rightarrow> string" where
  "string_of_nat n =
     (if n < 10 then [digit_char n] else string_of_nat (n div 10) @ [digit_char (n mod 10)])"

definition string_of_int :: "int \<Rightarrow> string" where
  "string_of_int k = (if k < 0 then ''-'' @ string_of_nat (nat (- k)) else string_of_nat (nat k))"

text \<open>
  \<open>String(v)\<close>: a plain object (one that defines neither \<open>toString\<close> nor \<open>valueOf\<close>, as a
  column object does not) converts to the text \<open>[object Object]\<close>.
\<close>

fun js_to_string :: "js_value \<Rightarrow> string" where
  "js_to_string (JS_number k) = string_of_int k"
| "js_to_string (JS_string s) = s"
| "js_to_string JS_object = ''[object Object]''"

text \<open>
  \<open>a + b\<close>: numeric addition when both operands are numbers; when one of them is a
  string or an object, the concatenation of their string conversions.
\<close>

fun js_plus :: "js_value \<Rightarrow> js_value \<Rightarrow> js_value" where
  "js_plus (JS_number a) (JS_number b) = JS_number (a + b)"
| "js_plus a b = JS_string (js_to_string a @ js_to_string b)"

text \<open>
  A value set on an \<open>integer\<close> column is sent as a parameter of that column's type.
  A number is stored as it is; a string has to read as an integer (an optional sign,
  then digits), or the statement is rejected, whether or not a row matches the \<open>where\<close>.
\<close>

fun digit_value :: "char \<Rightarrow> nat option" where
  "digit_value c =
     (let n = (of_char c :: nat) in if 48 \<le> n \<and> n \<le> 57 then Some (n - 48) else None)"

fun read_digits :: "nat \<Rightarrow> string \<Rightarrow> nat option" where
  "read_digits acc [] = Some acc"
| "read_digits acc (c # cs) =
     (case digit_value c of None \<Rightarrow> None | Some v \<Rightarrow> read_digits (10 * acc + v) cs)"

definition read_integer :: "string \<Rightarrow> int option" where
  "read_integer s =
     (case s of
        [] \<Rightarrow> None
      | c # cs \<Rightarrow>
          if c = CHR ''-'' then (if cs = [] then None
                                else map_option (\<lambda>n. - int n) (read_digits 0 cs))
          else if c = CHR ''+'' then (if cs = [] then None
                                     else map_option int (read_digits 0 cs))
          else map_option int (read_digits 0 (c # cs)))"

fun integer_param :: "js_value \<Rightarrow> error + int" where
  "integer_param (JS_number k) = Inr k"
| "integer_param (JS_string s) =
     (case read_integer s of None \<Rightarrow> Inl InvalidTextRepresentation | Some k \<Rightarrow> Inr k)"
| "integer_param JS_object = Inl InvalidTextRepresentation"

definition incrementCookCount :: "int \<Rightarrow> nat \<Rightarrow> db \<Rightarrow> (error + recipe option) \<times> db" where
  "incrementCookCount now i d =
     (case integer_param (js_plus JS_object (JS_number 1)) of
        Inl e \<Rightarrow> (Inl e, d)
      | Inr cookCount \<Rightarrow>
          (Inr (first_row (map (\<lambda>r. r\<lparr>r_cookCount := cookCount, r_updatedAt := now\<rparr>)
                             (filter (\<lambda>r. r_id r = i) (recipes d)))),
           d\<lparr>recipes := map (\<lambda>r. if r_id r = i
                                   then r\<lparr>r_cookCount := cookCount, r_updatedAt := now\<rparr>
                                   else r) (recipes d)\<rparr>))"

section \<open>Storage layer: comments\<close>

definition getComments :: "nat \<Rightarrow> db \<Rightarrow> comment list" where
  "getComments recipeId d =
     newest_first c_createdAt
       (filter (\<lambda>c. c_recipeId c = recipeId \<and> c_parentId c = None) (comments d))"

definition getReplies :: "nat \<Rightarrow> db \<Rightarrow> comment list" where
  "getReplies commentId d =
     newest_first c_createdAt (filter (\<lambda>c. c_parentId c = Some commentId) (comments d))"

record insert_comment =
  ic_userId :: nat
  ic_recipeId :: nat
  ic_parentId :: "nat option"
  ic_content :: string

definition createComment :: "int \<Rightarrow> insert_comment \<Rightarrow> db \<Rightarrow> (error + comment) \<times> db" where
  "createComment now commentData d =
     (let d1 = d\<lparr>comments_seq := Suc (comments_seq d)\<rparr>;
          row = \<lparr>c_id = Suc (comments_seq d), c_userId = ic_userId commentData,
                 c_recipeId = ic_recipeId commentData,
                 c_parentId = ic_parentId commentData,
                 c_content = ic_content commentData,
                 c_createdAt = now, c_updatedAt = now\<rparr>
      in if \<exists>c \<in> set (comments d). c_id c = c_id row then (Inl UniqueViolation, d1)
         else if \<not> user_exists (c_userId row) d \<or> \<not> recipe_exists (c_recipeId row) d
                 \<or> (case c_parentId row of None \<Rightarrow> False
                     | Some p \<Rightarrow> p \<noteq> c_id row \<and> \<not> comment_exists p d)
         then (Inl ForeignKeyViolation, d1)
         else (Inr row, d1\<lparr>comments := comments d @ [row]\<rparr>))"

definition deleteComment :: "nat \<Rightarrow> db \<Rightarrow> bool \<times> db" where
  "deleteComment i d = (True, d\<lparr>comments := delete_comments (\<lambda>c. c_id c = i) (comments d)\<rparr>)"

section \<open>Storage layer: favorites\<close>

text \<open>
  The favorites of a user, newest first, each joined with the recipe it names.
\<close>

definition getFavorites :: "nat \<Rightarrow> db \<Rightarrow> recipe list" where
  "getFavorites userId d =
     concat (map (\<lambda>f. filter (\<lambda>r. r_id r = f_recipeId f) (recipes d))
               (newest_first f_createdAt (filter (\<lambda>f. f_userId f = userId) (favorites d))))"

definition isFavorite :: "nat \<Rightarrow> nat \<Rightarrow> db \<Rightarrow> bool" where
  "isFavorite userId recipeId d =
     (first_row (filter (\<lambda>f. f_userId f = userId \<and> f_recipeId f = recipeId) (favorites d))
        \<noteq> None)"

record insert_favorite =
  if_userId :: nat
  if_recipeId :: nat

definition addFavorite :: "int \<Rightarrow> insert_favorite \<Rightarrow> db \<Rightarrow> (error + favorite) \<times> db" where
  "addFavorite now favoriteData d =
     (let d1 = d\<lparr>favorites_seq := Suc (favorites_seq d)\<rparr>;
          row = \<lparr>f_id = Suc (favorites_seq d), f_userId = if_userId favoriteData,
                 f_recipeId = if_recipeId favoriteData, f_createdAt = now\<rparr>
      in if \<exists>f \<in> set (favorites d). f_id f = f_id row then (Inl UniqueViolation, d1)
         else if \<not> user_exists (f_userId row) d \<or> \<not> recipe_exists (f_recipeId row) d
         then (Inl ForeignKeyViolation, d1)
         else (Inr row, d1\<lparr>favorites := favorites d @ [row]\<rparr>))"

definition removeFavorite :: "nat \<Rightarrow> nat \<Rightarrow> db \<Rightarrow> bool \<times> db" where
  "removeFavorite userId recipeId d =
     (True, d\<lparr>favorites := filter (\<lambda>f. \<not> (f_userId f = userId \<and> f_recipeId f = recipeId))
                               (favorites d)\<rparr>)"

section \<open>Storage layer: followers\<close>

text \<open>
  The rows of \<open>followers\<close> that point at the user, each joined with the user row of
  its \<open>followerId\<close> (for \<open>getFollowing\<close>: the other way round); then each joined user
  is mapped to the object without its password.
\<close>

definition getFollowers :: "nat \<Rightarrow> db \<Rightarrow> user_object list" where
  "getFollowers userId d =
     map (\<lambda>u. userWithoutPassword (row_object u))
       (concat (map (\<lambda>fl. filter (\<lambda>u. u_id u = fl_followerId fl) (users d))
                  (filter (\<lambda>fl. fl_followingId fl = userId) (followers d))))"

definition getFollowing :: "nat \<Rightarrow> db \<Rightarrow> user_object list" where
  "getFollowing userId d =
     map (\<lambda>u. userWithoutPassword (row_object u))
       (concat (map (\<lambda>fl. filter (\<lambda>u. u_id u = fl_followingId fl) (users d))
                  (filter (\<lambda>fl. fl_followerId fl = userId) (followers d))))"

definition isFollowing :: "nat \<Rightarrow> nat \<Rightarrow> db \<Rightarrow> bool" where
  "isFollowing followerId followingId d =
     (first_row (filter (\<lambda>fl. fl_followerId fl = followerId \<and> fl_followingId fl = followingId)
                   (followers d)) \<noteq> None)"

record insert_follower =
  ifl_followerId :: nat
  ifl_followingId :: nat

definition follow :: "int \<Rightarrow> insert_follower \<Rightarrow> db \<Rightarrow> (error + follower) \<times> db" where
  "follow now followerData d =
     (let d1 = d\<lparr>followers_seq := Suc (followers_seq d)\<rparr>;
          row = \<lparr>fl_id = Suc (followers_seq d), fl_followerId = ifl_followerId followerData,
                 fl_followingId = ifl_followingId followerData, fl_createdAt = now\<rparr>
      in if \<exists>fl \<in> set (followers d). fl_id fl = fl_id row then (Inl UniqueViolation, d1)
         else if \<not> user_exists (fl_followerId row) d \<or> \<not> user_exists (fl_followingId row) d
         then (Inl ForeignKeyViolation, d1)
         else (Inr row, d1\<lparr>followers := followers d @ [row]\<rparr>))"

definition unfollow :: "nat \<Rightarrow> nat \<Rightarrow> db \<Rightarrow> bool \<times> db" where
  "unfollow followerId followingId d =
     (True, d\<lparr>followers := filter (\<lambda>fl. \<not> (fl_followerId fl = followerId
                                              \<and> fl_followingId fl = followingId))
                               (followers d)\<rparr>)"

section \<open>Deleting a user row\<close>

text \<open>
  The storage interface has no operation that deletes a user. What the deletion of
  user rows does to the other tables is fixed by the schema: \<open>pets.userId\<close>,
  \<open>recipes.userId\<close>, \<open>comments.userId\<close>, \<open>favorites.userId\<close>,
  \<open>followers.followerId\<close> and \<open>followers.followingId\<close> all reference \<open>users.id\<close>
  with \<open>onDelete: "cascade"\<close>, and the deleted recipes and comments cascade further.
  Rows are deleted because a user row was: when no user row matches, nothing changes.
\<close>

definition delete_users :: "(user \<Rightarrow> bool) \<Rightarrow> db \<Rightarrow> db" where
  "delete_users doomed d =
     (let dead = map u_id (filter doomed (users d));
          d1 = delete_recipes (\<lambda>r. r_userId r \<in> set dead) d
      in d1\<lparr>users := filter (\<lambda>u. \<not> doomed u) (users d),
            pets := filter (\<lambda>p. p_userId p \<notin> set dead) (pets d),
            comments := delete_comments (\<lambda>c. c_userId c \<in> set dead) (comments d1),
            favorites := filter (\<lambda>f. f_userId f \<notin> set dead) (favorites d1),
            followers := filter (\<lambda>fl. fl_followerId fl \<notin> set dead
                                      \<and> fl_followingId fl \<notin> set dead) (followers d)\<rparr>)"

text \<open>\<open>DELETE FROM users WHERE id = i\<close>\<close>

definition delete_user_row :: "nat \<Rightarrow> db \<Rightarrow> db" where
  "delete_user_row i d = delete_users (\<lambda>u. u_id u = i) d"

section \<open>Request handlers (routes)\<close>

text \<open>
  A handler takes the request and the database and returns the response (status and
  JSON body) with the database it leaves. The session's \<open>userId\<close> comes with the
  request (\<open>None\<close>: no session). Path parameters are given as the numbers they parse
  to, and a request body as the value its schema parses it to; an uploaded file is
  given by its stored file name. A storage call that rejects lands in the handler's
  \<open>catch\<close>, which answers with the handler's error status.
\<close>

datatype json =
    Message string
  | Invalid_data error
  | Server_error
  | User_json user_object
  | User_opt_json "user_object option"
  | Pet_json pet
  | Pet_opt_json "pet option"
  | Recipe_json recipe
  | Recipe_opt_json "recipe option"
  | Comment_json comment
  | Favorite_json favorite
  | Follower_json follower

type_synonym response = "nat \<times> json"

definition authenticate :: "nat option \<Rightarrow> db \<Rightarrow> response + user_object" where
  "authenticate session d =
     (case session of
        None \<Rightarrow> Inl (401, Message ''Unauthorized'')
      | Some userId \<Rightarrow>
          if userId = 0 then Inl (401, Message ''Unauthorized'')
          else (case getUser userId d of
                  None \<Rightarrow> Inl (401, Message ''User not found'')
                | Some user \<Rightarrow> Inr user))"

definition upload_url :: "string \<Rightarrow> string" where
  "upload_url filename = ''/uploads/'' @ filename"

definition post_register ::
  "(string \<Rightarrow> nat \<Rightarrow> string) \<Rightarrow> int \<Rightarrow> insert_user \<Rightarrow> db \<Rightarrow> response \<times> db" where
  "post_register hash now userData d =
     (if getUserByEmail (iu_email userData) d \<noteq> None
      then ((400, Message ''Email already registered''), d)
      else if getUserByUsername (iu_username userData) d \<noteq> None
      then ((400, Message ''Username already taken''), d)
      else (case createUser hash now userData d of
              (Inl e, d') \<Rightarrow> ((400, Invalid_data e), d')
            | (Inr user, d') \<Rightarrow> ((201, User_json user), d')))"

definition post_pet ::
  "int \<Rightarrow> nat option \<Rightarrow> insert_pet \<Rightarrow> string option \<Rightarrow> db \<Rightarrow> response \<times> db" where
  "post_pet now session body file d =
     (case authenticate session d of
        Inl r \<Rightarrow> (r, d)
      | Inr user \<Rightarrow>
          (case createPet now (body\<lparr>ip_userId := uo_id user,
                                     ip_profileImageUrl := map_option upload_url file\<rparr>) d of
             (Inl e, d') \<Rightarrow> ((400, Invalid_data e), d')
           | (Inr pet, d') \<Rightarrow> ((201, Pet_json pet), d')))"

definition put_pet ::
  "int \<Rightarrow> nat option \<Rightarrow> nat \<Rightarrow> partial_pet \<Rightarrow> string option \<Rightarrow> db \<Rightarrow> response \<times> db" where
  "put_pet now session petId body file d =
     (case authenticate session d of
        Inl r \<Rightarrow> (r, d)
      | Inr user \<Rightarrow>
          (case getPet petId d of
             None \<Rightarrow> ((404, Message ''Pet not found''), d)
           | Some pet \<Rightarrow>
               if p_userId pet \<noteq> uo_id user then ((403, Message ''Not authorized''), d)
               else (case updatePet now petId
                            (case file of None \<Rightarrow> body
                             | Some f \<Rightarrow> body\<lparr>pp_profileImageUrl := Some (Some (upload_url f))\<rparr>)
                            d of
                       (Inl e, d') \<Rightarrow> ((400, Invalid_data e), d')
                     | (Inr updatedPet, d') \<Rightarrow> ((200, Pet_opt_json updatedPet), d'))))"

definition delete_pet :: "nat option \<Rightarrow> nat \<Rightarrow> db \<Rightarrow> response \<times> db" where
  "delete_pet session petId d =
     (case authenticate session d of
        Inl r \<Rightarrow> (r, d)
      | Inr user \<Rightarrow>
          (case getPet petId d of
             None \<Rightarrow> ((404, Message ''Pet not found''), d)
           | Some pet \<Rightarrow>
               if p_userId pet \<noteq> uo_id user then ((403, Message ''Not authorized''), d)
               else ((200, Message ''Pet deleted successfully''), snd (deletePet petId d))))"

definition post_recipe ::
  "int \<Rightarrow> nat option \<Rightarrow> insert_recipe \<Rightarrow> string option \<Rightarrow> db \<Rightarrow> response \<times> db" where
  "post_recipe now session body file d =
     (case authenticate session d of
        Inl r \<Rightarrow> (r, d)
      | Inr user \<Rightarrow>
          (case createRecipe now (body\<lparr>ir_userId := uo_id user,
                                        ir_imageUrl := map_option upload_url file\<rparr>) d of
             (Inl e, d') \<Rightarrow> ((400, Invalid_data e), d')
           | (Inr recipe, d') \<Rightarrow> ((201, Recipe_json recipe), d')))"

definition put_recipe ::
  "int \<Rightarrow> nat option \<Rightarrow> nat \<Rightarrow> partial_recipe \<Rightarrow> string option \<Rightarrow> db \<Rightarrow> response \<times> db" where
  "put_recipe now session recipeId body file d =
     (case authenticate session d of
        Inl r \<Rightarrow> (r, d)
      | Inr user \<Rightarrow>
          (case getRecipe recipeId d of
             None \<Rightarrow> ((404, Message ''Recipe not found''), d)
           | Some recipe \<Rightarrow>
               if r_userId recipe \<noteq> uo_id user then ((403, Message ''Not authorized''), d)
               else (case updateRecipe now recipeId
                            (case file of None \<Rightarrow> body
                             | Some f \<Rightarrow> body\<lparr>pr_imageUrl := Some (Some (upload_url f))\<rparr>)
                            d of
                       (Inl e, d') \<Rightarrow> ((400, Invalid_data e), d')
                     | (Inr updatedRecipe, d') \<Rightarrow> ((200, Recipe_opt_json updatedRecipe), d'))))"

definition delete_recipe :: "nat option \<Rightarrow> nat \<Rightarrow> db \<Rightarrow> response \<times> db" where
  "delete_recipe session recipeId d =
     (case authenticate session d of
        Inl r \<Rightarrow> (r, d)
      | Inr user \<Rightarrow>
          (case getRecipe recipeId d of
             None \<Rightarrow> ((404, Message ''Recipe not found''), d)
           | Some recipe \<Rightarrow>
               if r_userId recipe \<noteq> uo_id user then ((403, Message ''Not authorized''), d)
               else ((200, Message ''Recipe deleted successfully''),
                     snd (deleteRecipe recipeId d))))"

definition post_cook :: "int \<Rightarrow> nat option \<Rightarrow> nat \<Rightarrow> db \<Rightarrow> response \<times> db" where
  "post_cook now session recipeId d =
     (case authenticate session d of
        Inl r \<Rightarrow> (r, d)
      | Inr user \<Rightarrow>
          (case getRecipe recipeId d of
             None \<Rightarrow> ((404, Message ''Recipe not found''), d)
           | Some recipe \<Rightarrow>
               (case incrementCookCount now recipeId d of
                  (Inl e, d') \<Rightarrow> ((500, Server_error), d')
                | (Inr updatedRecipe, d') \<Rightarrow> ((200, Recipe_opt_json updatedRecipe), d'))))"

definition post_comment ::
  "int \<Rightarrow> nat option \<Rightarrow> nat \<Rightarrow> insert_comment \<Rightarrow> db \<Rightarrow> response \<times> db" where
  "post_comment now session recipeId body d =
     (case authenticate session d of
        Inl r \<Rightarrow> (r, d)
      | Inr user \<Rightarrow>
          (case getRecipe recipeId d of
             None \<Rightarrow> ((404, Message ''Recipe not found''), d)
           | Some recipe \<Rightarrow>
               (case createComment now (body\<lparr>ic_userId := uo_id user,
                                               ic_recipeId := recipeId\<rparr>) d of
                  (Inl e, d') \<Rightarrow> ((400, Invalid_data e), d')
                | (Inr comment, d') \<Rightarrow> ((201, Comment_json comment), d'))))"

definition delete_comment :: "nat option \<Rightarrow> nat \<Rightarrow> db \<Rightarrow> response \<times> db" where
  "delete_comment session commentId d =
     (case authenticate session d of
        Inl r \<Rightarrow> (r, d)
      | Inr user \<Rightarrow>
          (case first_row (filter (\<lambda>c. c_id c = commentId) (comments d)) of
             None \<Rightarrow> ((404, Message ''Comment not found''), d)
           | Some comment \<Rightarrow>
               if c_userId comment \<noteq> uo_id user then ((403, Message ''Not authorized''), d)
               else ((200, Message ''Comment deleted successfully''),
                     snd (deleteComment commentId d))))"

definition post_favorite :: "int \<Rightarrow> nat option \<Rightarrow> nat \<Rightarrow> db \<Rightarrow> response \<times> db" where
  "post_favorite now session recipeId d =
     (case authenticate session d of
        Inl r \<Rightarrow> (r, d)
      | Inr user \<Rightarrow>
          (case getRecipe recipeId d of
             None \<Rightarrow> ((404, Message ''Recipe not found''), d)
           | Some recipe \<Rightarrow>
               if isFavorite (uo_id user) recipeId d
               then ((400, Message ''Recipe already favorited''), d)
               else (case addFavorite now \<lparr>if_userId = uo_id user, if_recipeId = recipeId\<rparr> d of
                       (Inl e, d') \<Rightarrow> ((400, Invalid_data e), d')
                     | (Inr favorite, d') \<Rightarrow> ((201, Favorite_json favorite), d'))))"

definition delete_favorite :: "nat option \<Rightarrow> nat \<Rightarrow> db \<Rightarrow> response \<times> db" where
  "delete_favorite session recipeId d =
     (case authenticate session d of
        Inl r \<Rightarrow> (r, d)
      | Inr user \<Rightarrow>
          if \<not> isFavorite (uo_id user) recipeId d
          then ((404, Message ''Favorite not found''), d)
          else ((200, Message ''Favorite removed successfully''),
                snd (removeFavorite (uo_id user) recipeId d)))"

definition post_follow :: "int \<Rightarrow> nat option \<Rightarrow> nat \<Rightarrow> db \<Rightarrow> response \<times> db" where
  "post_follow now session followingId d =
     (case authenticate session d of
        Inl r \<Rightarrow> (r, d)
      | Inr user \<Rightarrow>
          if getUser followingId d = None then ((404, Message ''User not found''), d)
          else if followingId = uo_id user
          then ((400, Message ''Cannot follow yourself''), d)
          else if isFollowing (uo_id user) followingId d
          then ((400, Message ''Already following this user''), d)
          else (case follow now \<lparr>ifl_followerId = uo_id user,
                                  ifl_followingId = followingId\<rparr> d of
                  (Inl e, d') \<Rightarrow> ((400, Invalid_data e), d')
                | (Inr fl, d') \<Rightarrow> ((201, Follower_json fl), d')))"

definition delete_follow :: "nat option \<Rightarrow> nat \<Rightarrow> db \<Rightarrow> response \<times> db" where
  "delete_follow session followingId d =
     (case authenticate session d of
        Inl r \<Rightarrow> (r, d)
      | Inr user \<Rightarrow>
          if \<not> isFollowing (uo_id user) followingId d
          then ((404, Message ''Not following this user''), d)
          else ((200, Message ''Unfollowed successfully''),
                snd (unfollow (uo_id user) followingId d)))"

definition put_profile ::
  "(string \<Rightarrow> nat \<Rightarrow> string) \<Rightarrow> int \<Rightarrow> nat option \<Rightarrow> partial_user \<Rightarrow> string option \<Rightarrow> db
     \<Rightarrow> response \<times> db" where
  "put_profile hash now session body file d =
     (case authenticate session d of
        Inl r \<Rightarrow> (r, d)
      | Inr user \<Rightarrow>
          (case updateUser hash now (uo_id user)
                  (case file of None \<Rightarrow> body
                   | Some f \<Rightarrow> body\<lparr>pu_profileImageUrl := Some (Some (upload_url f))\<rparr>)
                  d of
             (Inl e, d') \<Rightarrow> ((400, Invalid_data e), d')
           | (Inr updatedUser, d') \<Rightarrow> ((200, User_opt_json updatedUser), d')))"

text \<open>
  The requests that write to the database (the \<open>GET\<close> routes, login and logout only
  read it or touch the session), and the handler of each. \<open>handle\<close> runs a handler
  from its first line to its response with no other request in between. Each request
  has its own clock value and its own hashing call.
\<close>

datatype request =
    Post_register insert_user
  | Post_pet "nat option" insert_pet "string option"
  | Put_pet "nat option" nat partial_pet "string option"
  | Delete_pet "nat option" nat
  | Post_recipe "nat option" insert_recipe "string option"
  | Put_recipe "nat option" nat partial_recipe "string option"
  | Delete_recipe "nat option" nat
  | Post_cook "nat option" nat
  | Post_comment "nat option" nat insert_comment
  | Delete_comment "nat option" nat
  | Post_favorite "nat option" nat
  | Delete_favorite "nat option" nat
  | Post_follow "nat option" nat
  | Delete_follow "nat option" nat
  | Put_profile "nat option" partial_user "string option"

fun handle :: "(string \<Rightarrow> nat \<Rightarrow> string) \<Rightarrow> int \<Rightarrow> request \<Rightarrow> db \<Rightarrow> response \<times> db" where
  "handle hash now (Post_register userData) d = post_register hash now userData d"
| "handle hash now (Post_pet session body file) d = post_pet now session body file d"
| "handle hash now (Put_pet session petId body file) d = put_pet now session petId body file d"
| "handle hash now (Delete_pet session petId) d = delete_pet session petId d"
| "handle hash now (Post_recipe session body file) d = post_recipe now session body file d"
| "handle hash now (Put_recipe session recipeId body file) d =
     put_recipe now session recipeId body file d"
| "handle hash now (Delete_recipe session recipeId) d = delete_recipe session recipeId d"
| "handle hash now (Post_cook session recipeId) d = post_cook now session recipeId d"
| "handle hash now (Post_comment session recipeId body) d =
     post_comment now session recipeId body d"
| "handle hash now (Delete_comment session commentId) d = delete_comment session commentId d"
| "handle hash now (Post_favorite session recipeId) d = post_favorite now session recipeId d"
| "handle hash now (Delete_favorite session recipeId) d = delete_favorite session recipeId d"
| "handle hash now (Post_follow session followingId) d = post_follow now session followingId d"
| "handle hash now (Delete_follow session followingId) d =
     delete_follow session followingId d"
| "handle hash now (Put_profile session body file) d = put_profile hash now session body file d"

definition empty_db :: db where
  "empty_db =
     \<lparr>users = [], pets = [], recipes = [], comments = [], favorites = [], followers = [],
      users_seq = 0, pets_seq = 0, recipes_seq = 0, comments_seq = 0, favorites_seq = 0,
      followers_seq = 0\<rparr>"

text \<open>
  The databases the server reaches when it serves one request at a time: each request
  is handled to its response before the next one arrives.
\<close>

inductive reachable_sequentially :: "db \<Rightarrow> bool" where
  start: "reachable_sequentially empty_db"
| step: "reachable_sequentially d \<Longrightarrow> reachable_sequentially (snd (handle hash now request d))"

section \<open>Request handlers as processes\<close>

text \<open>
  The handlers are \<open>async\<close> functions: a handler runs until its next \<open>await\<close> of a
  storage call, and while it waits there the server runs other requests. A handler in
  flight is a process: it has responded, or it waits on a storage call, which, given
  the database at the moment it runs, yields the rest of the handler and the database
  it leaves. (\<open>await bcrypt.hash\<close> touches no database and is part of the step of the
  storage call that follows it.)
\<close>

datatype process = Respond response | Await "db \<Rightarrow> process \<times> db"

text \<open>\<open>await\<close> of a storage call that only reads, and of one that may write.\<close>

definition await_query :: "(db \<Rightarrow> 'a) \<Rightarrow> ('a \<Rightarrow> process) \<Rightarrow> process" where
  "await_query query rest = Await (\<lambda>d. (rest (query d), d))"

definition await_call :: "(db \<Rightarrow> 'a \<times> db) \<Rightarrow> ('a \<Rightarrow> process) \<Rightarrow> process" where
  "await_call call rest = Await (\<lambda>d. (rest (fst (call d)), snd (call d)))"

text \<open>
  Running a process to its response with nothing else in between: each awaited call
  runs on the database the previous one left.
\<close>

primrec run :: "process \<Rightarrow> db \<Rightarrow> response \<times> db" where
  "run (Respond r) d = (r, d)"
| "run (Await f) d = (case map_prod run id (f d) of (rest, d') \<Rightarrow> rest d')"

text \<open>The \<open>authenticate\<close> middleware, then the handler with \<open>req.user\<close>.\<close>

definition authenticated :: "nat option \<Rightarrow> (user_object \<Rightarrow> process) \<Rightarrow> process" where
  "authenticated session handler =
     (case session of
        None \<Rightarrow> Respond (401, Message ''Unauthorized'')
      | Some userId \<Rightarrow>
          if userId = 0 then Respond (401, Message ''Unauthorized'')
          else await_query (getUser userId)
                 (\<lambda>found. case found of
                    None \<Rightarrow> Respond (401, Message ''User not found'')
                  | Some user \<Rightarrow> handler user))"

definition post_register_process ::
  "(string \<Rightarrow> nat \<Rightarrow> string) \<Rightarrow> int \<Rightarrow> insert_user \<Rightarrow> process" where
  "post_register_process hash now userData =
     await_query (getUserByEmail (iu_email userData))
       (\<lambda>existingUser.
          if existingUser \<noteq> None then Respond (400, Message ''Email already registered'')
          else await_query (getUserByUsername (iu_username userData))
                 (\<lambda>existingUsername.
                    if existingUsername \<noteq> None
                    then Respond (400, Message ''Username already taken'')
                    else await_call (createUser hash now userData)
                           (\<lambda>created. case created of
                              Inl e \<Rightarrow> Respond (400, Invalid_data e)
                            | Inr user \<Rightarrow> Respond (201, User_json user))))"

definition post_pet_process ::
  "int \<Rightarrow> nat option \<Rightarrow> insert_pet \<Rightarrow> string option \<Rightarrow> process" where
  "post_pet_process now session body file =
     authenticated session
       (\<lambda>user. await_call (createPet now (body\<lparr>ip_userId := uo_id user,
                                     ip_profileImageUrl := map_option upload_url file\<rparr>))
                 (\<lambda>created. case created of
                    Inl e \<Rightarrow> Respond (400, Invalid_data e)
                  | Inr pet \<Rightarrow> Respond (201, Pet_json pet)))"

definition put_pet_process ::
  "int \<Rightarrow> nat option \<Rightarrow> nat \<Rightarrow> partial_pet \<Rightarrow> string option \<Rightarrow> process" where
  "put_pet_process now session petId body file =
     authenticated session
       (\<lambda>user. await_query (getPet petId)
          (\<lambda>found. case found of
             None \<Rightarrow> Respond (404, Message ''Pet not found'')
           | Some pet \<Rightarrow>
               if p_userId pet \<noteq> uo_id user then Respond (403, Message ''Not authorized'')
               else await_call (updatePet now petId
                                  (case file of None \<Rightarrow> body
                                   | Some f \<Rightarrow>
                                       body\<lparr>pp_profileImageUrl := Some (Some (upload_url f))\<rparr>))
                      (\<lambda>updated. case updated of
                         Inl e \<Rightarrow> Respond (400, Invalid_data e)
                       | Inr updatedPet \<Rightarrow> Respond (200, Pet_opt_json updatedPet))))"

definition delete_pet_process :: "nat option \<Rightarrow> nat \<Rightarrow> process" where
  "delete_pet_process session petId =
     authenticated session
       (\<lambda>user. await_query (getPet petId)
          (\<lambda>found. case found of
             None \<Rightarrow> Respond (404, Message ''Pet not found'')
           | Some pet \<Rightarrow>
               if p_userId pet \<noteq> uo_id user then Respond (403, Message ''Not authorized'')
               else await_call (deletePet petId)
                      (\<lambda>ok. Respond (200, Message ''Pet deleted successfully''))))"

definition post_recipe_process ::
  "int \<Rightarrow> nat option \<Rightarrow> insert_recipe \<Rightarrow> string option \<Rightarrow> process" where
  "post_recipe_process now session body file =
     authenticated session
       (\<lambda>user. await_call (createRecipe now (body\<lparr>ir_userId := uo_id user,
                                        ir_imageUrl := map_option upload_url file\<rparr>))
                 (\<lambda>created. case created of
                    Inl e \<Rightarrow> Respond (400, Invalid_data e)
                  | Inr recipe \<Rightarrow> Respond (201, Recipe_json recipe)))"

definition put_recipe_process ::
  "int \<Rightarrow> nat option \<Rightarrow> nat \<Rightarrow> partial_recipe \<Rightarrow> string option \<Rightarrow> process" where
  "put_recipe_process now session recipeId body file =
     authenticated session
       (\<lambda>user. await_query (getRecipe recipeId)
          (\<lambda>found. case found of
             None \<Rightarrow> Respond (404, Message ''Recipe not found'')
           | Some recipe \<Rightarrow>
               if r_userId recipe \<noteq> uo_id user then Respond (403, Message ''Not authorized'')
               else await_call (updateRecipe now recipeId
                                  (case file of None \<Rightarrow> body
                                   | Some f \<Rightarrow> body\<lparr>pr_imageUrl := Some (Some (upload_url f))\<rparr>))
                      (\<lambda>updated. case updated of
                         Inl e \<Rightarrow> Respond (400, Invalid_data e)
                       | Inr updatedRecipe \<Rightarrow> Respond (200, Recipe_opt_json updatedRecipe))))"

definition delete_recipe_process :: "nat option \<Rightarrow> nat \<Rightarrow> process" where
  "delete_recipe_process session recipeId =
     authenticated session
       (\<lambda>user. await_query (getRecipe recipeId)
          (\<lambda>found. case found of
             None \<Rightarrow> Respond (404, Message ''Recipe not found'')
           | Some recipe \<Rightarrow>
               if r_userId recipe \<noteq> uo_id user then Respond (403, Message ''Not authorized'')
               else await_call (deleteRecipe recipeId)
                      (\<lambda>ok. Respond (200, Message ''Recipe deleted successfully''))))"

definition post_cook_process :: "int \<Rightarrow> nat option \<Rightarrow> nat \<Rightarrow> process" where
  "post_cook_process now session recipeId =
     authenticated session
       (\<lambda>user. await_query (getRecipe recipeId)
          (\<lambda>found. case found of
             None \<Rightarrow> Respond (404, Message ''Recipe not found'')
           | Some recipe \<Rightarrow>
               await_call (incrementCookCount now recipeId)
                 (\<lambda>updated. case updated of
                    Inl e \<Rightarrow> Respond (500, Server_error)
                  | Inr updatedRecipe \<Rightarrow> Respond (200, Recipe_opt_json updatedRecipe))))"

definition post_comment_process ::
  "int \<Rightarrow> nat option \<Rightarrow> nat \<Rightarrow> insert_comment \<Rightarrow> process" where
  "post_comment_process now session recipeId body =
     authenticated session
       (\<lambda>user. await_query (getRecipe recipeId)
          (\<lambda>found. case found of
             None \<Rightarrow> Respond (404, Message ''Recipe not found'')
           | Some recipe \<Rightarrow>
               await_call (createComment now (body\<lparr>ic_userId := uo_id user,
                                                     ic_recipeId := recipeId\<rparr>))
                 (\<lambda>created. case created of
                    Inl e \<Rightarrow> Respond (400, Invalid_data e)
                  | Inr comment \<Rightarrow> Respond (201, Comment_json comment))))"

definition delete_comment_process :: "nat option \<Rightarrow> nat \<Rightarrow> process" where
  "delete_comment_process session commentId =
     authenticated session
       (\<lambda>user. await_query (\<lambda>d. first_row (filter (\<lambda>c. c_id c = commentId) (comments d)))
          (\<lambda>found. case found of
             None \<Rightarrow> Respond (404, Message ''Comment not found'')
           | Some comment \<Rightarrow>
               if c_userId comment \<noteq> uo_id user then Respond (403, Message ''Not authorized'')
               else await_call (deleteComment commentId)
                      (\<lambda>ok. Respond (200, Message ''Comment deleted successfully''))))"

definition post_favorite_process :: "int \<Rightarrow> nat option \<Rightarrow> nat \<Rightarrow> process" where
  "post_favorite_process now session recipeId =
     authenticated session
       (\<lambda>user. await_query (getRecipe recipeId)
          (\<lambda>found. case found of
             None \<Rightarrow> Respond (404, Message ''Recipe not found'')
           | Some recipe \<Rightarrow>
               await_query (isFavorite (uo_id user) recipeId)
                 (\<lambda>isFav.
                    if isFav then Respond (400, Message ''Recipe already favorited'')
                    else await_call
                           (addFavorite now \<lparr>if_userId = uo_id user, if_recipeId = recipeId\<rparr>)
                           (\<lambda>added. case added of
                              Inl e \<Rightarrow> Respond (400, Invalid_data e)
                            | Inr favorite \<Rightarrow> Respond (201, Favorite_json favorite)))))"

definition delete_favorite_process :: "nat option \<Rightarrow> nat \<Rightarrow> process" where
  "delete_favorite_process session recipeId =
     authenticated session
       (\<lambda>user. await_query (isFavorite (uo_id user) recipeId)
          (\<lambda>isFav.
             if \<not> isFav then Respond (404, Message ''Favorite not found'')
             else await_call (removeFavorite (uo_id user) recipeId)
                    (\<lambda>ok. Respond (200, Message ''Favorite removed successfully''))))"

definition post_follow_process :: "int \<Rightarrow> nat option \<Rightarrow> nat \<Rightarrow> process" where
  "post_follow_process now session followingId =
     authenticated session
       (\<lambda>user. await_query (getUser followingId)
          (\<lambda>found.
             if found = None then Respond (404, Message ''User not found'')
             else if followingId = uo_id user
             then Respond (400, Message ''Cannot follow yourself'')
             else await_query (isFollowing (uo_id user) followingId)
                    (\<lambda>isFol.
                       if isFol then Respond (400, Message ''Already following this user'')
                       else await_call
                              (follow now \<lparr>ifl_followerId = uo_id user,
                                           ifl_followingId = followingId\<rparr>)
                              (\<lambda>added. case added of
                                 Inl e \<Rightarrow> Respond (400, Invalid_data e)
                               | Inr fl \<Rightarrow> Respond (201, Follower_json fl)))))"

definition delete_follow_process :: "nat option \<Rightarrow> nat \<Rightarrow> process" where
  "delete_follow_process session followingId =
     authenticated session
       (\<lambda>user. await_query (isFollowing (uo_id user) followingId)
          (\<lambda>isFol.
             if \<not> isFol then Respond (404, Message ''Not following this user'')
             else await_call (unfollow (uo_id user) followingId)
                    (\<lambda>ok. Respond (200, Message ''Unfollowed successfully''))))"

definition put_profile_process ::
  "(string \<Rightarrow> nat \<Rightarrow> string) \<Rightarrow> int \<Rightarrow> nat option \<Rightarrow> partial_user \<Rightarrow> string option
     \<Rightarrow> process" where
  "put_profile_process hash now session body file =
     authenticated session
       (\<lambda>user. await_call (updateUser hash now (uo_id user)
                             (case file of None \<Rightarrow> body
                              | Some f \<Rightarrow>
                                  body\<lparr>pu_profileImageUrl := Some (Some (upload_url f))\<rparr>))
                 (\<lambda>updated. case updated of
                    Inl e \<Rightarrow> Respond (400, Invalid_data e)
                  | Inr updatedUser \<Rightarrow> Respond (200, User_opt_json updatedUser)))"

fun process_of :: "(string \<Rightarrow> nat \<Rightarrow> string) \<Rightarrow> int \<Rightarrow> request \<Rightarrow> process" where
  "process_of hash now (Post_register userData) = post_register_process hash now userData"
| "process_of hash now (Post_pet session body file) = post_pet_process now session body file"
| "process_of hash now (Put_pet session petId body file) =
     put_pet_process now session petId body file"
| "process_of hash now (Delete_pet session petId) = delete_pet_process session petId"
| "process_of hash now (Post_recipe session body file) =
     post_recipe_process now session body file"
| "process_of hash now (Put_recipe session recipeId body file) =
     put_recipe_process now session recipeId body file"
| "process_of hash now (Delete_recipe session recipeId) =
     delete_recipe_process session recipeId"
| "process_of hash now (Post_cook session recipeId) = post_cook_process now session recipeId"
| "process_of hash now (Post_comment session recipeId body) =
     post_comment_process now session recipeId body"
| "process_of hash now (Delete_comment session commentId) =
     delete_comment_process session commentId"
| "process_of hash now (Post_favorite session recipeId) =
     post_favorite_process now session recipeId"
| "process_of hash now (Delete_favorite session recipeId) =
     delete_favorite_process session recipeId"
| "process_of hash now (Post_follow session followingId) =
     post_follow_process now session followingId"
| "process_of hash now (Delete_follow session followingId) =
     delete_follow_process session followingId"
| "process_of hash now (Put_profile session body file) =
     put_profile_process hash now session body file"

text \<open>
  The server with requests in flight: the database and the handlers that have started
  and not yet responded. A request arrives and its handler starts; a waiting handler's
  storage call runs on the database as it is at that moment; a handler that has
  responded leaves. The clock value of a request is the clock at its one storage call
  that writes. \<open>reachable_concurrently\<close>: the databases the server passes through.
\<close>

inductive serving :: "db \<Rightarrow> process list \<Rightarrow> bool" where
  boot: "serving empty_db []"
| arrive: "serving d ps \<Longrightarrow> serving d (ps @ [process_of hash now request])"
| advance: "serving d (ps1 @ Await f # ps2) \<Longrightarrow>
            serving (snd (f d)) (ps1 @ fst (f d) # ps2)"
| respond: "serving d (ps1 @ Respond r # ps2) \<Longrightarrow> serving d (ps1 @ ps2)"

definition reachable_concurrently :: "db \<Rightarrow> bool" where
  "reachable_concurrently d \<longleftrightarrow> (\<exists>ps. serving d ps)"

text \<open>
  A schedule names, step by step, which handler in flight goes next (by its position
  in the list): a waiting handler runs its storage call, one that has responded leaves.
\<close>

fun step_at :: "nat \<Rightarrow> db \<times> process list \<Rightarrow> db \<times> process list" where
  "step_at i (d, ps) =
     (if i < length ps
      then (case ps ! i of
              Respond r \<Rightarrow> (d, take i ps @ drop (Suc i) ps)
            | Await f \<Rightarrow> (snd (f d), take i ps @ fst (f d) # drop (Suc i) ps))
      else (d, ps))"

fun schedule :: "nat list \<Rightarrow> db \<times> process list \<Rightarrow> db \<times> process list" where
  "schedule [] s = s"
| "schedule (i # rest) s = schedule rest (step_at i s)"

section \<open>Example data\<close>

text \<open>
  A small database used to run the definitions: two users, two recipes of ana's (both
  for cats), a pet, a comment thread, one favorite of bob's and bob following ana.
\<close>

definition ana :: user where
  "ana = \<lparr>u_id = 1, u_username = ''ana'', u_email = ''ana@x.com'',
           u_password = ''$2b$10$ana'', u_firstName = None, u_lastName = None,
           u_state = None, u_city = None, u_profileImageUrl = None,
           u_createdAt = 100, u_updatedAt = 100\<rparr>"

definition bob :: user where
  "bob = \<lparr>u_id = 2, u_username = ''bob'', u_email = ''bob@x.com'',
           u_password = ''$2b$10$bob'', u_firstName = Some ''Bob'', u_lastName = None,
           u_state = None, u_city = None, u_profileImageUrl = None,
           u_createdAt = 110, u_updatedAt = 110\<rparr>"

definition rex :: pet where
  "rex = \<lparr>p_id = 1, p_userId = 1, p_name = ''Rex'', p_type = Dog, p_breed = None,
           p_age = Some 3, p_weight = None, p_profileImageUrl = None,
           p_createdAt = 120, p_updatedAt = 120\<rparr>"

definition tuna_bites :: recipe where
  "tuna_bites = \<lparr>r_id = 1, r_userId = 1, r_title = ''Tuna bites'', r_ingredients = ''tuna'',
                  r_instructions = ''Bake.'', r_petType = Cat, r_category = Treats,
                  r_cookingType = Baked, r_prepTime = 20, r_imageUrl = None,
                  r_youtubeUrl = None, r_cookCount = 0,
                  r_createdAt = 200, r_updatedAt = 200\<rparr>"

definition liver_mix :: recipe where
  "liver_mix = \<lparr>r_id = 2, r_userId = 1, r_title = ''Liver mix'',
                 r_ingredients = ''chicken liver'', r_instructions = ''Chop.'',
                 r_petType = Cat, r_category = Meat, r_cookingType = Raw, r_prepTime = 10,
                 r_imageUrl = None, r_youtubeUrl = None, r_cookCount = 0,
                 r_createdAt = 300, r_updatedAt = 300\<rparr>"

definition comment_first :: comment where
  "comment_first = \<lparr>c_id = 1, c_userId = 1, c_recipeId = 1, c_parentId = None,
                     c_content = ''My cat loves it'', c_createdAt = 400, c_updatedAt = 400\<rparr>"

definition comment_reply :: comment where
  "comment_reply = \<lparr>c_id = 2, c_userId = 2, c_recipeId = 1, c_parentId = Some 1,
                     c_content = ''Mine too'', c_createdAt = 500, c_updatedAt = 500\<rparr>"

definition comment_later :: comment where
  "comment_later = \<lparr>c_id = 3, c_userId = 2, c_recipeId = 1, c_parentId = None,
                     c_content = ''How long does it keep?'', c_createdAt = 600,
                     c_updatedAt = 600\<rparr>"

definition bob_favorite :: favorite where
  "bob_favorite = \<lparr>f_id = 1, f_userId = 2, f_recipeId = 1, f_createdAt = 700\<rparr>"

definition bob_follows_ana :: follower where
  "bob_follows_ana = \<lparr>fl_id = 1, fl_followerId = 2, fl_followingId = 1, fl_createdAt = 800\<rparr>"

definition kitchen :: db where
  "kitchen =
     \<lparr>users = [ana, bob], pets = [rex], recipes = [tuna_bites, liver_mix],
      comments = [comment_first, comment_reply, comment_later],
      favorites = [bob_favorite], followers = [bob_follows_ana],
      users_seq = 2, pets_seq = 1, recipes_seq = 2, comments_seq = 3, favorites_seq = 1,
      followers_seq = 1\<rparr>"

text \<open>A stand-in for the hashing call, to run the functions that take one.\<close>

definition toy_hash :: "string \<Rightarrow> nat \<Rightarrow> string" where
  "toy_hash plaintext cost = ''$2b$'' @ plaintext"

definition dog_treats :: recipe_options where
  "dog_treats = \<lparr>o_petType = Some ''dog'', o_category = Some ''treats'', o_search = None,
                  o_page = None, o_limit = None\<rparr>"

definition dog_treats_chicken :: recipe_options where
  "dog_treats_chicken = dog_treats\<lparr>o_search := Some ''chicken''\<rparr>"

text \<open>
  The requests that build the example database from the empty one, each with its
  clock value, and the server running a list of requests with the stand-in hash.
\<close>

fun serve :: "(int \<times> request) list \<Rightarrow> db \<Rightarrow> db" where
  "serve [] d = d"
| "serve ((now, request) # rest) d = serve rest (snd (handle toy_hash now request d))"

definition ana_data :: insert_user where
  "ana_data = \<lparr>iu_username = ''ana'', iu_email = ''ana@x.com'', iu_password = ''10$ana'',
                iu_firstName = None, iu_lastName = None, iu_state = None, iu_city = None,
                iu_profileImageUrl = None\<rparr>"

definition bob_data :: insert_user where
  "bob_data = \<lparr>iu_username = ''bob'', iu_email = ''bob@x.com'', iu_password = ''10$bob'',
                iu_firstName = Some ''Bob'', iu_lastName = None, iu_state = None,
                iu_city = None, iu_profileImageUrl = None\<rparr>"

definition rex_data :: insert_pet where
  "rex_data = \<lparr>ip_userId = 0, ip_name = ''Rex'', ip_type = Dog, ip_breed = None,
                ip_age = Some 3, ip_weight = None, ip_profileImageUrl = None\<rparr>"

definition tuna_data :: insert_recipe where
  "tuna_data = \<lparr>ir_userId = 0, ir_title = ''Tuna bites'', ir_ingredients = ''tuna'',
                 ir_instructions = ''Bake.'', ir_petType = Cat, ir_category = Treats,
                 ir_cookingType = Baked, ir_prepTime = 20, ir_imageUrl = None,
                 ir_youtubeUrl = None\<rparr>"

definition liver_data :: insert_recipe where
  "liver_data = \<lparr>ir_userId = 0, ir_title = ''Liver mix'', ir_ingredients = ''chicken liver'',
                  ir_instructions = ''Chop.'', ir_petType = Cat, ir_category = Meat,
                  ir_cookingType = Raw, ir_prepTime = 10, ir_imageUrl = None,
                  ir_youtubeUrl = None\<rparr>"

definition kitchen_requests :: "(int \<times> request) list" where
  "kitchen_requests =
     [(100, Post_register ana_data),
      (110, Post_register bob_data),
      (120, Post_pet (Some 1) rex_data None),
      (200, Post_recipe (Some 1) tuna_data None),
      (300, Post_recipe (Some 1) liver_data None),
      (400, Post_comment (Some 1) 1
              \<lparr>ic_userId = 0, ic_recipeId = 0, ic_parentId = None,
                ic_content = ''My cat loves it''\<rparr>),
      (500, Post_comment (Some 2) 1
              \<lparr>ic_userId = 0, ic_recipeId = 0, ic_parentId = Some 1,
                ic_content = ''Mine too''\<rparr>),
      (600, Post_comment (Some 2) 1
              \<lparr>ic_userId = 0, ic_recipeId = 0, ic_parentId = None,
                ic_content = ''How long does it keep?''\<rparr>),
      (700, Post_favorite (Some 2) 1),
      (800, Post_follow (Some 2) 1)]"

text \<open>
  Two favorites of bob's for the same recipe \<open>Liver mix\<close>, and the example database with
  both.
\<close>

definition bob_favorite_again :: favorite where
  "bob_favorite_again = \<lparr>f_id = 2, f_userId = 2, f_recipeId = 2, f_createdAt = 900\<rparr>"

definition bob_favorite_twice :: favorite where
  "bob_favorite_twice = \<lparr>f_id = 3, f_userId = 2, f_recipeId = 2, f_createdAt = 901\<rparr>"

definition raced_kitchen :: db where
  "raced_kitchen =
     kitchen\<lparr>favorites := [bob_favorite, bob_favorite_again, bob_favorite_twice],
             favorites_seq := 3\<rparr>"

text \<open>A third user to create, and a second registration under ana's username.\<close>

definition carla_data :: insert_user where
  "carla_data = \<lparr>iu_username = ''carla'', iu_email = ''carla@x.com'', iu_password = ''miau'',
                  iu_firstName = None, iu_lastName = None, iu_state = None, iu_city = None,
                  iu_profileImageUrl = None\<rparr>"

definition carla :: user where
  "carla = \<lparr>u_id = 3, u_username = ''carla'', u_email = ''carla@x.com'',
             u_password = ''$2b$miau'', u_firstName = None, u_lastName = None,
             u_state = None, u_city = None, u_profileImageUrl = None,
             u_createdAt = 900, u_updatedAt = 900\<rparr>"

definition kitchen_with_carla :: db where
  "kitchen_with_carla = kitchen\<lparr>users_seq := 3, users := [ana, bob, carla]\<rparr>"

definition ana_again :: insert_user where
  "ana_again = \<lparr>iu_username = ''ana'', iu_email = ''ana2@x.com'', iu_password = ''gato'',
                 iu_firstName = None, iu_lastName = None, iu_state = None, iu_city = None,
                 iu_profileImageUrl = None\<rparr>"

text \<open>
  Three partial updates: Rex gets a new name and a new id; the recipe \<open>Liver mix\<close> gets
  a new title, a cook count and a creation time; ana moves and changes her password
  (the \<open>updatedAt\<close> she sends is overwritten).
\<close>

definition rename_rex :: partial_pet where
  "rename_rex = \<lparr>pp_id = Some 5, pp_userId = None, pp_name = Some ''Rex II'', pp_type = None,
                  pp_breed = None, pp_age = None, pp_weight = None,
                  pp_profileImageUrl = None, pp_createdAt = None, pp_updatedAt = None\<rparr>"

definition rex_renamed :: pet where
  "rex_renamed = rex\<lparr>p_id := 5, p_name := ''Rex II'', p_updatedAt := 900\<rparr>"

definition recount_liver :: partial_recipe where
  "recount_liver = \<lparr>pr_id = None, pr_userId = None, pr_title = Some ''Liver crunch'',
                     pr_ingredients = None, pr_instructions = None, pr_petType = None,
                     pr_category = None, pr_cookingType = None, pr_prepTime = None,
                     pr_imageUrl = None, pr_youtubeUrl = None, pr_cookCount = Some 7,
                     pr_createdAt = Some 250, pr_updatedAt = None\<rparr>"

definition liver_recounted :: recipe where
  "liver_recounted = liver_mix\<lparr>r_title := ''Liver crunch'', r_cookCount := 7,
                                 r_createdAt := 250, r_updatedAt := 900\<rparr>"

definition ana_moves :: partial_user where
  "ana_moves = \<lparr>pu_id = None, pu_username = None, pu_email = None,
                 pu_password = Some ''novo'', pu_firstName = None, pu_lastName = None,
                 pu_state = None, pu_city = Some (Some ''Recife''),
                 pu_profileImageUrl = None, pu_createdAt = None, pu_updatedAt = Some 5\<rparr>"

definition ana_moved :: user where
  "ana_moved = ana\<lparr>u_password := ''$2b$novo'', u_city := Some ''Recife'', u_updatedAt := 900\<rparr>"

section \<open>Predicates of the specification\<close>

text \<open>
  A partial update of one column: a supplied value is the new value, and a column that
  was not supplied keeps its old value.
\<close>

definition partially_set :: "'a option \<Rightarrow> 'a \<Rightarrow> 'a \<Rightarrow> bool" where
  "partially_set v old new = (case v of None \<Rightarrow> new = old | Some x \<Rightarrow> new = x)"

text \<open>The password as \<open>updateUser\<close> stores it: hashed, unless it is the empty string.\<close>

definition stored_password :: "(string \<Rightarrow> nat \<Rightarrow> string) \<Rightarrow> string \<Rightarrow> string" where
  "stored_password hash p = (if p = [] then p else hash p 10)"

text \<open>
  A partial update of a row: every column is partially set, but \<open>updatedAt\<close>, which is
  the clock of the call whatever was supplied.
\<close>

definition user_partial_update ::
  "(string \<Rightarrow> nat \<Rightarrow> string) \<Rightarrow> partial_user \<Rightarrow> int \<Rightarrow> user \<Rightarrow> user \<Rightarrow> bool" where
  "user_partial_update hash userData now old new \<longleftrightarrow>
     u_updatedAt new = now \<and>
     partially_set (pu_id userData) (u_id old) (u_id new) \<and>
     partially_set (pu_username userData) (u_username old) (u_username new) \<and>
     partially_set (pu_email userData) (u_email old) (u_email new) \<and>
     partially_set (map_option (stored_password hash) (pu_password userData))
       (u_password old) (u_password new) \<and>
     partially_set (pu_firstName userData) (u_firstName old) (u_firstName new) \<and>
     partially_set (pu_lastName userData) (u_lastName old) (u_lastName new) \<and>
     partially_set (pu_state userData) (u_state old) (u_state new) \<and>
     partially_set (pu_city userData) (u_city old) (u_city new) \<and>
     partially_set (pu_profileImageUrl userData) (u_profileImageUrl old)
       (u_profileImageUrl new) \<and>
     partially_set (pu_createdAt userData) (u_createdAt old) (u_createdAt new)"

definition pet_partial_update :: "partial_pet \<Rightarrow> int \<Rightarrow> pet \<Rightarrow> pet \<Rightarrow> bool" where
  "pet_partial_update petData now old new \<longleftrightarrow>
     p_updatedAt new = now \<and>
     partially_set (pp_id petData) (p_id old) (p_id new) \<and>
     partially_set (pp_userId petData) (p_userId old) (p_userId new) \<and>
     partially_set (pp_name petData) (p_name old) (p_name new) \<and>
     partially_set (pp_type petData) (p_type old) (p_type new) \<and>
     partially_set (pp_breed petData) (p_breed old) (p_breed new) \<and>
     partially_set (pp_age petData) (p_age old) (p_age new) \<and>
     partially_set (pp_weight petData) (p_weight old) (p_weight new) \<and>
     partially_set (pp_profileImageUrl petData) (p_profileImageUrl old)
       (p_profileImageUrl new) \<and>
     partially_set (pp_createdAt petData) (p_createdAt old) (p_createdAt new)"

definition recipe_partial_update :: "partial_recipe \<Rightarrow> int \<Rightarrow> recipe \<Rightarrow> recipe \<Rightarrow> bool" where
  "recipe_partial_update recipeData now old new \<longleftrightarrow>
     r_updatedAt new = now \<and>
     partially_set (pr_id recipeData) (r_id old) (r_id new) \<and>
     partially_set (pr_userId recipeData) (r_userId old) (r_userId new) \<and>
     partially_set (pr_title recipeData) (r_title old) (r_title new) \<and>
     partially_set (pr_ingredients recipeData) (r_ingredients old) (r_ingredients new) \<and>
     partially_set (pr_instructions recipeData) (r_instructions old) (r_instructions new) \<and>
     partially_set (pr_petType recipeData) (r_petType old) (r_petType new) \<and>
     partially_set (pr_category recipeData) (r_category old) (r_category new) \<and>
     partially_set (pr_cookingType recipeData) (r_cookingType old) (r_cookingType new) \<and>
     partially_set (pr_prepTime recipeData) (r_prepTime old) (r_prepTime new) \<and>
     partially_set (pr_imageUrl recipeData) (r_imageUrl old) (r_imageUrl new) \<and>
     partially_set (pr_youtubeUrl recipeData) (r_youtubeUrl old) (r_youtubeUrl new) \<and>
     partially_set (pr_cookCount recipeData) (r_cookCount old) (r_cookCount new) \<and>
     partially_set (pr_createdAt recipeData) (r_createdAt old) (r_createdAt new)"

text \<open>
  The invariant of the favorites table under the handlers: no pair of user and recipe
  twice, and every favorite names a user (with an id a session can hold) and a recipe
  that exist. \<open>grows\<close> relates the database before and after a handler that leaves
  the favorites alone and keeps the users and recipes they name.
\<close>

definition favorites_sound :: "db \<Rightarrow> bool" where
  "favorites_sound d \<longleftrightarrow>
     distinct (map (\<lambda>f. (f_userId f, f_recipeId f)) (favorites d)) \<and>
     (\<forall>f \<in> set (favorites d).
        f_userId f \<noteq> 0 \<and> user_exists (f_userId f) d \<and> recipe_exists (f_recipeId f) d)"

definition grows :: "db \<Rightarrow> db \<Rightarrow> bool" where
  "grows d d' \<longleftrightarrow>
     favorites d' = favorites d \<and>
     (\<forall>f \<in> set (favorites d). user_exists (f_userId f) d \<longrightarrow> user_exists (f_userId f) d') \<and>
     (\<forall>f \<in> set (favorites d).
        recipe_exists (f_recipeId f) d \<longrightarrow> recipe_exists (f_recipeId f) d')"

section \<open>Basic facts about the queries\<close>

lemmas kitchen_defs = kitchen_def ana_def bob_def rex_def tuna_bites_def liver_mix_def
  comment_first_def comment_reply_def comment_later_def bob_favorite_def bob_follows_ana_def

lemmas builder_defs = where_cond_def offset_rows_def limit_rows_def orderBy_desc_createdAt_def
  select_from_recipes_def run_select_def paginate_def newest_first_def truthy_string_def
  truthy_number_def petType_of_label_def category_of_label_def

lemma first_row_None [simp]: "first_row xs = None \<longleftrightarrow> xs = []"
  by (cases xs) (simp_all add: first_row_def)

lemma first_row_Some: "first_row xs = Some x \<Longrightarrow> x \<in> set xs"
  by (cases xs) (simp_all add: first_row_def)

lemma first_row_map: "first_row (map f xs) = map_option f (first_row xs)"
  by (cases xs) (simp_all add: first_row_def)

lemma set_newest_first [simp]: "set (newest_first f xs) = set xs"
  by (simp add: newest_first_def)

lemma mset_newest_first [simp]: "mset (newest_first f xs) = mset xs"
  by (simp add: newest_first_def)

lemma sorted_newest_first: "sorted_wrt (\<lambda>a b. f b \<le> f a) (newest_first f xs)"
proof -
  have "sorted (map (\<lambda>r. - f r) (newest_first f xs))"
    unfolding newest_first_def by (rule sorted_sort_key)
  then show ?thesis by (simp add: sorted_map)
qed

lemma incrementCookCount_rejects:
  "incrementCookCount now i d = (Inl InvalidTextRepresentation, d)"
  by (simp add: incrementCookCount_def read_integer_def)

lemma snd_result [simp]:
  "snd (case p of (Inl e, d') \<Rightarrow> (f e d', d') | (Inr v, d') \<Rightarrow> (g v d', d')) = snd p"
  by (cases p; cases "fst p") auto

lemma set_paginate:
  assumes "paginate q rows = Inr rs"
  shows "set rs \<subseteq> set rows"
proof -
  define ordered where
    "ordered = (if sc_orderBy_desc_createdAt q then newest_first r_createdAt rows else rows)"
  have o: "set ordered = set rows" by (simp add: ordered_def)
  from assms have "set rs \<subseteq> set ordered"
    unfolding paginate_def Let_def ordered_def [symmetric]
    by (auto split: if_splits option.splits dest: in_set_dropD in_set_takeD)
  then show ?thesis using o by simp
qed

lemma set_run_select:
  assumes "run_select q rows = Inr rs"
  shows "set rs \<subseteq> set rows"
proof (cases "sc_where q")
  case None
  with assms have "paginate q rows = Inr rs" by (simp add: run_select_def)
  then show ?thesis by (rule set_paginate)
next
  case (Some c)
  with assms have "paginate q (filter (cond_holds c) rows) = Inr rs"
    by (simp add: run_select_def split: if_splits)
  then have "set rs \<subseteq> set (filter (cond_holds c) rows)" by (rule set_paginate)
  then show ?thesis by auto
qed

lemma set_getRecipes: "getRecipes options d = Inr rs \<Longrightarrow> set rs \<subseteq> set (recipes d)"
  unfolding getRecipes_def Let_def by (rule set_run_select)

lemma set_getFavorites: "set (getFavorites u d) \<subseteq> set (recipes d)"
  by (auto simp: getFavorites_def)

lemma getFavorites_empty:
  "\<forall>f \<in> set (favorites d). f_userId f \<noteq> u \<Longrightarrow> getFavorites u d = []"
  by (simp add: getFavorites_def newest_first_def filter_False)

lemma isFavorite_iff:
  "isFavorite u r d \<longleftrightarrow> (\<exists>f \<in> set (favorites d). f_userId f = u \<and> f_recipeId f = r)"
  by (auto simp: isFavorite_def filter_empty_conv)

lemma getUser_no_password: "getUser i d = Some v \<Longrightarrow> uo_password v = None"
  by (auto simp: getUser_def userWithoutPassword_def split: option.splits)

lemma getUser_Some:
  assumes "getUser i d = Some user"
  shows "uo_id user = i \<and> user_exists i d"
proof -
  from assms obtain u where u: "first_row (filter (\<lambda>u. u_id u = i) (users d)) = Some u"
    and user: "user = userWithoutPassword (row_object u)"
    by (auto simp: getUser_def split: option.splits)
  from first_row_Some [OF u] have "u \<in> set (users d)" "u_id u = i" by auto
  then show ?thesis by (auto simp: user userWithoutPassword_def row_object_def user_exists_def)
qed

lemma getUser_exists: "user_exists i d \<Longrightarrow> \<exists>user. getUser i d = Some user"
  by (auto simp: getUser_def user_exists_def filter_empty_conv split: option.splits)

lemma getRecipe_exists: "getRecipe i d \<noteq> None \<longleftrightarrow> recipe_exists i d"
  by (auto simp: getRecipe_def recipe_exists_def filter_empty_conv)

lemma authenticate_Inr:
  assumes "authenticate session d = Inr user"
  shows "session = Some (uo_id user) \<and> uo_id user \<noteq> 0 \<and> user_exists (uo_id user) d"
proof -
  from assms obtain i where "session = Some i" "i \<noteq> 0" "getUser i d = Some user"
    by (auto simp: authenticate_def split: option.splits if_splits)
  then show ?thesis using getUser_Some by blast
qed

lemma authenticate_exists:
  assumes "i \<noteq> 0" and "user_exists i d"
  shows "\<exists>user. authenticate (Some i) d = Inr user \<and> uo_id user = i"
proof -
  from getUser_exists [OF assms(2)] obtain user where g: "getUser i d = Some user" by blast
  then have "authenticate (Some i) d = Inr user" using assms(1) by (simp add: authenticate_def)
  then show ?thesis using getUser_Some [OF g] by blast
qed

lemma filter_map_update:
  "(\<And>x. k (f x) = k x) \<Longrightarrow>
   filter (\<lambda>x. k x = i) (map (\<lambda>x. if k x = i then f x else x) xs)
     = map f (filter (\<lambda>x. k x = i) xs)"
  by (induction xs) auto

lemma filter_others_update:
  "(\<And>x. k (f x) = k x) \<Longrightarrow>
   filter (\<lambda>x. k x \<noteq> i) (map (\<lambda>x. if k x = i then f x else x) xs)
     = filter (\<lambda>x. k x \<noteq> i) xs"
  by (induction xs) auto

lemma filter_append_fresh:
  "\<forall>x \<in> set xs. \<not> P x \<Longrightarrow> P y \<Longrightarrow> filter P (xs @ [y]) = [y]"
  by (simp add: filter_empty_conv)

lemma distinct_key_once:
  "distinct (map g xs) \<Longrightarrow> length (filter (\<lambda>x. g x = k) xs) \<le> 1"
proof (induction xs)
  case Nil
  then show ?case by simp
next
  case (Cons x xs)
  show ?case
  proof (cases "g x = k")
    case True
    with Cons.prems have "\<forall>y \<in> set xs. g y \<noteq> k" by (auto simp: image_iff)
    then have "filter (\<lambda>x. g x = k) xs = []" by (simp add: filter_empty_conv)
    then show ?thesis using True by simp
  next
    case False
    then show ?thesis using Cons by simp
  qed
qed

section \<open>The example database is one the server reaches\<close>

lemma kitchen_served: "serve kitchen_requests empty_db = kitchen"
  by (simp add: kitchen_requests_def empty_db_def kitchen_defs ana_data_def bob_data_def
       rex_data_def tuna_data_def liver_data_def toy_hash_def
       post_register_def post_pet_def post_recipe_def post_comment_def post_favorite_def
       post_follow_def authenticate_def getUser_def getUserByEmail_def getUserByUsername_def
       getRecipe_def isFavorite_def isFollowing_def createUser_def createPet_def createRecipe_def
       createComment_def addFavorite_def follow_def user_exists_def recipe_exists_def
       comment_exists_def first_row_def Let_def userWithoutPassword_def row_object_def)

lemma reachable_serve: "reachable_sequentially d \<Longrightarrow> reachable_sequentially (serve requests d)"
proof (induction requests arbitrary: d)
  case Nil
  then show ?case by simp
next
  case (Cons a requests)
  obtain now request where a: "a = (now, request)" by (cases a)
  from Cons.prems have "reachable_sequentially (snd (handle toy_hash now request d))"
    by (rule reachable_sequentially.step)
  then show ?case unfolding a by (simp add: Cons.IH)
qed

lemma kitchen_reachable: "reachable_sequentially kitchen"
  using reachable_serve [OF reachable_sequentially.start, of kitchen_requests] by (simp add: kitchen_served)

section \<open>Recipe filters\<close>

text \<open>
  What the three \<open>if\<close> blocks of \<open>getRecipes\<close> amount to: a supplied category makes
  the pet type irrelevant, and a supplied search makes both irrelevant.
\<close>

lemma getRecipes_category_replaces_petType:
  "truthy_string (o_category options) \<Longrightarrow>
   getRecipes options d = getRecipes (options\<lparr>o_petType := None\<rparr>) d"
  by (simp add: getRecipes_def Let_def truthy_string_def where_cond_def)

lemma getRecipes_search_replaces_filters:
  "truthy_string (o_search options) \<Longrightarrow>
   getRecipes options d = getRecipes (options\<lparr>o_petType := None, o_category := None\<rparr>) d"
  by (simp add: getRecipes_def Let_def truthy_string_def where_cond_def)

text \<open>
  C1 (the filters of \<open>getRecipes\<close> combine with AND). The code does not do this: each
  supplied filter calls \<open>query.where(...)\<close> on the same builder, and the last call
  replaces the condition of the earlier ones (where two conditions are meant together,
  as in \<open>getComments\<close> and \<open>isFavorite\<close>, the storage layer passes \<open>and(a, b)\<close> to one
  \<open>where\<close>). On the example database, which the server reaches, asking for
  \<open>petType = "dog"\<close> and \<open>category = "treats"\<close> returns a cat recipe (only the category
  is compared), and adding \<open>search = "chicken"\<close> returns a cat recipe of category meat
  (only the search is compared).
\<close>

theorem getRecipes_last_filter_only:
  "getRecipes dog_treats kitchen = Inr [tuna_bites] \<and> r_petType tuna_bites = Cat \<and>
   getRecipes dog_treats_chicken kitchen = Inr [liver_mix] \<and> r_petType liver_mix = Cat \<and>
   r_category liver_mix = Meat"
  by (simp add: getRecipes_def dog_treats_def dog_treats_chicken_def builder_defs kitchen_defs)

section \<open>Cook count\<close>

text \<open>
  C2 (\<open>incrementCookCount\<close> called M times on a recipe with count N leaves N + M and
  refreshes \<open>updatedAt\<close>). The code does not do this: the value it sets is the
  JavaScript sum of a column object and 1, the string \<open>[object Object]1\<close>, which the
  integer column rejects. The call fails and the database is left as it was: recipe 1
  of the example keeps its count 0, and the cook route answers 500.
\<close>

theorem incrementCookCount_never_increments:
  "incrementCookCount now 1 kitchen = (Inl InvalidTextRepresentation, kitchen) \<and>
   getRecipe 1 kitchen = Some tuna_bites \<and> r_cookCount tuna_bites = 0 \<and>
   fst (post_cook now (Some 2) 1 kitchen) = (500, Server_error)"
  by (simp add: incrementCookCount_rejects getRecipe_def first_row_def kitchen_defs post_cook_def
     authenticate_def getUser_def)

section \<open>Passwords\<close>

lemma createUser_Inr:
  assumes "createUser hash now userData d = (Inr created, d')"
  shows "\<exists>row. users d' = users d @ [row] \<and>
           u_username row = iu_username userData \<and> u_email row = iu_email userData \<and>
           u_password row = hash (iu_password userData) 10 \<and>
           created = userWithoutPassword (row_object row) \<and>
           (\<forall>u \<in> set (users d). u_id u \<noteq> u_id row \<and> u_username u \<noteq> u_username row
                                     \<and> u_email u \<noteq> u_email row)"
  using assms by (auto simp: createUser_def Let_def split: if_splits)

text \<open>
  C3: when \<open>createUser\<close> succeeds, the row it adds holds the hash of the password, and
  the lookups by username and by email return that row with the hash as its password;
  this is not the plaintext, provided the hashing call does not return its own input
  (a property of bcrypt, which the storage layer calls and does not implement). The
  object \<open>createUser\<close> returns, and every object \<open>getUser\<close> returns on any database,
  has no \<open>password\<close> key.
\<close>

theorem createUser_stores_hash:
  assumes "createUser hash now userData d = (Inr created, d')"
    and "hash (iu_password userData) 10 \<noteq> iu_password userData"
  shows "\<exists>row. users d' = users d @ [row] \<and>
           u_password row = hash (iu_password userData) 10 \<and>
           u_password row \<noteq> iu_password userData \<and>
           getUserByUsername (iu_username userData) d' = Some (row_object row) \<and>
           getUserByEmail (iu_email userData) d' = Some (row_object row) \<and>
           uo_password (row_object row) = Some (hash (iu_password userData) 10) \<and>
           uo_password created = None \<and>
           (\<forall>i v. getUser i d0 = Some v \<longrightarrow> uo_password v = None)"
proof -
  from createUser_Inr [OF assms(1)] obtain row where
    row: "users d' = users d @ [row]" "u_username row = iu_username userData"
      "u_email row = iu_email userData" "u_password row = hash (iu_password userData) 10"
      "created = userWithoutPassword (row_object row)"
      and fresh: "\<forall>u \<in> set (users d). u_id u \<noteq> u_id row \<and> u_username u \<noteq> u_username row
                     \<and> u_email u \<noteq> u_email row"
    by blast
  have byname: "filter (\<lambda>u. u_username u = iu_username userData) (users d') = [row]"
    unfolding row(1) using fresh row(2) by (intro filter_append_fresh) auto
  have bymail: "filter (\<lambda>u. u_email u = iu_email userData) (users d') = [row]"
    unfolding row(1) using fresh row(3) by (intro filter_append_fresh) auto
  have "getUserByUsername (iu_username userData) d' = Some (row_object row)"
    by (simp add: getUserByUsername_def byname first_row_def)
  moreover have "getUserByEmail (iu_email userData) d' = Some (row_object row)"
    by (simp add: getUserByEmail_def bymail first_row_def)
  moreover have "uo_password (row_object row) = Some (hash (iu_password userData) 10)"
    by (simp add: row_object_def row(4))
  moreover have "uo_password created = None"
    by (simp add: row(5) userWithoutPassword_def)
  moreover have "\<forall>i v. getUser i d0 = Some v \<longrightarrow> uo_password v = None"
    using getUser_no_password by blast
  ultimately show ?thesis using row(1,4) assms(2) by auto
qed

lemma createUser_carla:
  "createUser toy_hash 900 carla_data kitchen
     = (Inr (userWithoutPassword (row_object carla)), kitchen_with_carla)"
  by (simp add: createUser_def carla_data_def carla_def kitchen_with_carla_def kitchen_defs
       toy_hash_def Let_def)

theorem createUser_stores_hash_witness:
  "createUser toy_hash 900 carla_data kitchen
     = (Inr (userWithoutPassword (row_object carla)), kitchen_with_carla) \<and>
   toy_hash (iu_password carla_data) 10 \<noteq> iu_password carla_data \<and>
   (\<exists>row. users kitchen_with_carla = users kitchen @ [row] \<and>
      u_password row = ''$2b$miau'' \<and> u_password row \<noteq> ''miau'' \<and>
      getUserByUsername ''carla'' kitchen_with_carla = Some (row_object row) \<and>
      getUserByEmail ''carla@x.com'' kitchen_with_carla = Some (row_object row)) \<and>
   getUser 3 kitchen_with_carla = Some (userWithoutPassword (row_object carla)) \<and>
   uo_password (userWithoutPassword (row_object carla)) = None"
proof -
  have h2: "toy_hash (iu_password carla_data) 10 \<noteq> iu_password carla_data"
    by (simp add: toy_hash_def carla_data_def)
  have g: "getUser 3 kitchen_with_carla = Some (userWithoutPassword (row_object carla))"
    by (simp add: getUser_def first_row_def kitchen_with_carla_def ana_def bob_def carla_def)
  from createUser_stores_hash [OF createUser_carla h2, of kitchen_with_carla]
  obtain row where
    "users kitchen_with_carla = users kitchen @ [row]"
    "u_password row = toy_hash (iu_password carla_data) 10"
    "u_password row \<noteq> iu_password carla_data"
    "getUserByUsername (iu_username carla_data) kitchen_with_carla = Some (row_object row)"
    "getUserByEmail (iu_email carla_data) kitchen_with_carla = Some (row_object row)"
    and np: "\<forall>i v. getUser i kitchen_with_carla = Some v \<longrightarrow> uo_password v = None"
    by blast
  then have "\<exists>row. users kitchen_with_carla = users kitchen @ [row] \<and>
      u_password row = ''$2b$miau'' \<and> u_password row \<noteq> ''miau'' \<and>
      getUserByUsername ''carla'' kitchen_with_carla = Some (row_object row) \<and>
      getUserByEmail ''carla@x.com'' kitchen_with_carla = Some (row_object row)"
    by (auto simp: toy_hash_def carla_data_def)
  moreover from np g have "uo_password (userWithoutPassword (row_object carla)) = None"
    by blast
  ultimately show ?thesis using createUser_carla h2 g by blast
qed

section \<open>Duplicate users\<close>

text \<open>
  C6: when the database holds a user with the same username or the same email as the
  new user's, \<open>createUser\<close> fails with \<open>UniqueViolation\<close> (the DuplicateKey signal) and
  the table of users is as before; the register route answers 400 (email already
  registered, or username already taken) and leaves the database as it was.
\<close>

theorem duplicate_user_rejected:
  assumes "existing \<in> set (users d)"
    and "iu_username userData = u_username existing \<or> iu_email userData = u_email existing"
  shows "fst (createUser hash now userData d) = Inl UniqueViolation \<and>
         users (snd (createUser hash now userData d)) = users d \<and>
         (post_register hash now userData d = ((400, Message ''Email already registered''), d) \<or>
          post_register hash now userData d = ((400, Message ''Username already taken''), d))"
proof -
  have dup: "\<exists>u \<in> set (users d). u_id u = Suc (users_seq d)
               \<or> u_username u = iu_username userData \<or> u_email u = iu_email userData"
    using assms by auto
  then have c: "createUser hash now userData d
                  = (Inl UniqueViolation, d\<lparr>users_seq := Suc (users_seq d)\<rparr>)"
    by (simp add: createUser_def Let_def)
  have "getUserByEmail (iu_email userData) d \<noteq> None
          \<or> getUserByUsername (iu_username userData) d \<noteq> None"
    using assms by (auto simp: getUserByEmail_def getUserByUsername_def filter_empty_conv)
  then have
    "post_register hash now userData d = ((400, Message ''Email already registered''), d) \<or>
     post_register hash now userData d = ((400, Message ''Username already taken''), d)"
    by (auto simp: post_register_def)
  with c show ?thesis by simp
qed

theorem duplicate_user_rejected_witness:
  "ana \<in> set (users kitchen) \<and> iu_username ana_again = u_username ana \<and>
   fst (createUser toy_hash 900 ana_again kitchen) = Inl UniqueViolation \<and>
   users (snd (createUser toy_hash 900 ana_again kitchen)) = [ana, bob] \<and>
   post_register toy_hash 900 ana_again kitchen
     = ((400, Message ''Username already taken''), kitchen)"
proof -
  have h1: "ana \<in> set (users kitchen)" by (simp add: kitchen_def)
  have h2: "iu_username ana_again = u_username ana" by (simp add: ana_again_def ana_def)
  have h3: "users kitchen = [ana, bob]" by (simp add: kitchen_def)
  have h4: "post_register toy_hash 900 ana_again kitchen
              \<noteq> ((400, Message ''Email already registered''), kitchen)"
    by (simp add: post_register_def getUserByEmail_def getUserByUsername_def ana_again_def
          kitchen_defs first_row_def)
  from duplicate_user_rejected [OF h1 disjI1 [OF h2], of toy_hash 900] h1 h2 h3 h4
  show ?thesis by auto
qed

section \<open>Partial updates\<close>

lemma partially_set_supplied [simp]: "partially_set v old (supplied v old)"
  by (simp add: partially_set_def supplied_def split: option.splits)

lemma filter_rewritten:
  assumes "\<And>x. k x = i \<Longrightarrow> k (f x) = j" and "j = i \<or> (\<forall>x \<in> set xs. k x \<noteq> j)"
  shows "filter (\<lambda>x. k x = j) (map (\<lambda>x. if k x = i then f x else x) xs)
           = map f (filter (\<lambda>x. k x = i) xs)"
  using assms by (induction xs) auto

lemma filter_not_rewritten:
  assumes "\<And>x. k x = i \<Longrightarrow> k (f x) = j" and "j = i \<or> (\<forall>x \<in> set xs. k x \<noteq> j)"
  shows "filter (\<lambda>x. k x \<noteq> j) (map (\<lambda>x. if k x = i then f x else x) xs)
           = filter (\<lambda>x. k x \<noteq> i) xs"
  using assms by (induction xs) auto

lemma updatePet_partial:
  assumes "getPet i d = Some old" and "updatePet now i petData d = (Inr result, d')"
  shows "\<exists>new. result = Some new \<and> getPet (p_id new) d' = Some new \<and>
           pet_partial_update petData now old new \<and>
           filter (\<lambda>p. p_id p \<noteq> p_id new) (pets d') = filter (\<lambda>p. p_id p \<noteq> i) (pets d) \<and>
           d' = d\<lparr>pets := pets d'\<rparr>"
proof -
  define j where "j = supplied (pp_id petData) i"
  have keep: "\<And>p. p_id p = i \<Longrightarrow> p_id (set_pet petData now p) = j"
    by (simp add: set_pet_def j_def)
  from assms(1) have old: "first_row (filter (\<lambda>p. p_id p = i) (pets d)) = Some old"
    by (simp add: getPet_def)
  from first_row_Some [OF old] have oldin: "old \<in> set (pets d)" "p_id old = i" by auto
  from assms(2) have
    res: "result = first_row (map (set_pet petData now) (filter (\<lambda>p. p_id p = i) (pets d)))"
    and d': "d' = d\<lparr>pets := map (\<lambda>p. if p_id p = i then set_pet petData now p else p) (pets d)\<rparr>"
    and unique: "\<not> (\<exists>old \<in> set (pets d). \<exists>p \<in> set (filter (\<lambda>p. p_id p \<noteq> i) (pets d)).
            p_id old = i \<and> p_id (set_pet petData now old) \<noteq> p_id old \<and>
            p_id p = p_id (set_pet petData now old))"
    by (auto simp: updatePet_def Let_def split: if_splits)
  have fresh: "j = i \<or> (\<forall>x \<in> set (pets d). p_id x \<noteq> j)"
  proof (rule disjCI)
    assume "\<not> (\<forall>x \<in> set (pets d). p_id x \<noteq> j)"
    then obtain x where x: "x \<in> set (pets d)" "p_id x = j" by blast
    show "j = i"
    proof (rule ccontr)
      assume ne: "j \<noteq> i"
      have "x \<in> set (filter (\<lambda>p. p_id p \<noteq> i) (pets d))" using x ne by simp
      moreover have "p_id (set_pet petData now old) \<noteq> p_id old"
        using keep [of old] oldin ne by simp
      moreover have "p_id x = p_id (set_pet petData now old)" using x keep [of old] oldin by simp
      ultimately show False using unique oldin by blast
    qed
  qed
  have r: "result = Some (set_pet petData now old)"
    by (simp add: res first_row_map old)
  have idn: "p_id (set_pet petData now old) = j" using keep oldin by simp
  have g: "getPet (p_id (set_pet petData now old)) d' = Some (set_pet petData now old)"
    unfolding idn
    by (simp add: getPet_def d' filter_rewritten [of p_id, OF keep fresh] first_row_map old)
  have o: "filter (\<lambda>p. p_id p \<noteq> p_id (set_pet petData now old)) (pets d')
             = filter (\<lambda>p. p_id p \<noteq> i) (pets d)"
    unfolding idn by (simp add: d' filter_not_rewritten [of p_id, OF keep fresh])
  have e: "d' = d\<lparr>pets := pets d'\<rparr>" by (simp add: d')
  have u: "pet_partial_update petData now old (set_pet petData now old)"
    by (simp add: pet_partial_update_def set_pet_def)
  show ?thesis
    by (rule exI [of _ "set_pet petData now old"]) (intro conjI r g o e u)
qed

lemma updateRecipe_partial:
  assumes "getRecipe i d = Some old" and "updateRecipe now i recipeData d = (Inr result, d')"
  shows "\<exists>new. result = Some new \<and> getRecipe (r_id new) d' = Some new \<and>
           recipe_partial_update recipeData now old new \<and>
           filter (\<lambda>r. r_id r \<noteq> r_id new) (recipes d') = filter (\<lambda>r. r_id r \<noteq> i) (recipes d) \<and>
           d' = d\<lparr>recipes := recipes d'\<rparr>"
proof -
  define j where "j = supplied (pr_id recipeData) i"
  have keep: "\<And>r. r_id r = i \<Longrightarrow> r_id (set_recipe recipeData now r) = j"
    by (simp add: set_recipe_def j_def)
  from assms(1) have old: "first_row (filter (\<lambda>r. r_id r = i) (recipes d)) = Some old"
    by (simp add: getRecipe_def)
  from first_row_Some [OF old] have oldin: "old \<in> set (recipes d)" "r_id old = i" by auto
  from assms(2) have
    res: "result = first_row (map (set_recipe recipeData now)
                                (filter (\<lambda>r. r_id r = i) (recipes d)))"
    and d': "d' = d\<lparr>recipes := map (\<lambda>r. if r_id r = i then set_recipe recipeData now r else r)
                                  (recipes d)\<rparr>"
    and unique: "\<not> (\<exists>old \<in> set (recipes d). \<exists>r \<in> set (filter (\<lambda>r. r_id r \<noteq> i) (recipes d)).
            r_id old = i \<and> r_id (set_recipe recipeData now old) \<noteq> r_id old \<and>
            r_id r = r_id (set_recipe recipeData now old))"
    by (auto simp: updateRecipe_def Let_def split: if_splits)
  have fresh: "j = i \<or> (\<forall>x \<in> set (recipes d). r_id x \<noteq> j)"
  proof (rule disjCI)
    assume "\<not> (\<forall>x \<in> set (recipes d). r_id x \<noteq> j)"
    then obtain x where x: "x \<in> set (recipes d)" "r_id x = j" by blast
    show "j = i"
    proof (rule ccontr)
      assume ne: "j \<noteq> i"
      have "x \<in> set (filter (\<lambda>r. r_id r \<noteq> i) (recipes d))" using x ne by simp
      moreover have "r_id (set_recipe recipeData now old) \<noteq> r_id old"
        using keep [of old] oldin ne by simp
      moreover have "r_id x = r_id (set_recipe recipeData now old)" using x keep [of old] oldin by simp
      ultimately show False using unique oldin by blast
    qed
  qed
  have r: "result = Some (set_recipe recipeData now old)"
    by (simp add: res first_row_map old)
  have idn: "r_id (set_recipe recipeData now old) = j" using keep oldin by simp
  have g: "getRecipe (r_id (set_recipe recipeData now old)) d'
             = Some (set_recipe recipeData now old)"
    unfolding idn
    by (simp add: getRecipe_def d' filter_rewritten [of r_id, OF keep fresh] first_row_map old)
  have o: "filter (\<lambda>r. r_id r \<noteq> r_id (set_recipe recipeData now old)) (recipes d')
             = filter (\<lambda>r. r_id r \<noteq> i) (recipes d)"
    unfolding idn by (simp add: d' filter_not_rewritten [of r_id, OF keep fresh])
  have e: "d' = d\<lparr>recipes := recipes d'\<rparr>" by (simp add: d')
  have u: "recipe_partial_update recipeData now old (set_recipe recipeData now old)"
    by (simp add: recipe_partial_update_def set_recipe_def)
  show ?thesis
    by (rule exI [of _ "set_recipe recipeData now old"]) (intro conjI r g o e u)
qed

lemma updateUser_partial:
  assumes "first_row (filter (\<lambda>u. u_id u = i) (users d)) = Some old"
    and "updateUser hash now i userData d = (Inr result, d')"
  shows "\<exists>new. result = Some (userWithoutPassword (row_object new)) \<and>
           first_row (filter (\<lambda>u. u_id u = u_id new) (users d')) = Some new \<and>
           user_partial_update hash userData now old new \<and>
           filter (\<lambda>u. u_id u \<noteq> u_id new) (users d') = filter (\<lambda>u. u_id u \<noteq> i) (users d) \<and>
           d' = d\<lparr>users := users d'\<rparr>"
proof -
  define userData1 where
    "userData1 = (if truthy_string (pu_password userData)
                  then userData\<lparr>pu_password := Some (hash (the (pu_password userData)) 10)\<rparr>
                  else userData)"
  define j where "j = supplied (pu_id userData1) i"
  have keep: "\<And>u. u_id u = i \<Longrightarrow> u_id (set_user userData1 now u) = j"
    by (simp add: set_user_def j_def)
  from first_row_Some [OF assms(1)] have oldin: "old \<in> set (users d)" "u_id old = i" by auto
  from assms(2) have
    res: "result = map_option (\<lambda>u. userWithoutPassword (row_object u))
            (first_row (map (set_user userData1 now) (filter (\<lambda>u. u_id u = i) (users d))))"
    and d': "d' = d\<lparr>users := map (\<lambda>u. if u_id u = i then set_user userData1 now u else u)
                                (users d)\<rparr>"
    and unique: "\<not> (\<exists>old \<in> set (users d). \<exists>u \<in> set (filter (\<lambda>u. u_id u \<noteq> i) (users d)).
            u_id old = i \<and>
            (u_id (set_user userData1 now old) \<noteq> u_id old \<and>
               u_id u = u_id (set_user userData1 now old)
             \<or> u_username (set_user userData1 now old) \<noteq> u_username old \<and>
               u_username u = u_username (set_user userData1 now old)
             \<or> u_email (set_user userData1 now old) \<noteq> u_email old \<and>
               u_email u = u_email (set_user userData1 now old)))"
    unfolding updateUser_def Let_def userData1_def [symmetric]
    by (auto split: if_splits option.splits)
  have fresh: "j = i \<or> (\<forall>x \<in> set (users d). u_id x \<noteq> j)"
  proof (rule disjCI)
    assume "\<not> (\<forall>x \<in> set (users d). u_id x \<noteq> j)"
    then obtain x where x: "x \<in> set (users d)" "u_id x = j" by blast
    show "j = i"
    proof (rule ccontr)
      assume ne: "j \<noteq> i"
      have "x \<in> set (filter (\<lambda>u. u_id u \<noteq> i) (users d))" using x ne by simp
      moreover have "u_id (set_user userData1 now old) \<noteq> u_id old"
        using keep [of old] oldin ne by simp
      moreover have "u_id x = u_id (set_user userData1 now old)" using x keep [of old] oldin by simp
      ultimately show False using unique oldin by blast
    qed
  qed
  have idn: "u_id (set_user userData1 now old) = j" using keep oldin by simp
  have r: "result = Some (userWithoutPassword (row_object (set_user userData1 now old)))"
    by (simp add: res first_row_map assms(1))
  have g: "first_row (filter (\<lambda>u. u_id u = u_id (set_user userData1 now old)) (users d'))
             = Some (set_user userData1 now old)"
    unfolding idn
    by (simp add: d' filter_rewritten [of u_id, OF keep fresh] first_row_map assms(1))
  have o: "filter (\<lambda>u. u_id u \<noteq> u_id (set_user userData1 now old)) (users d')
             = filter (\<lambda>u. u_id u \<noteq> i) (users d)"
    unfolding idn by (simp add: d' filter_not_rewritten [of u_id, OF keep fresh])
  have e: "d' = d\<lparr>users := users d'\<rparr>" by (simp add: d')
  have pw: "pu_password userData1 = map_option (stored_password hash) (pu_password userData)"
    by (cases "pu_password userData")
      (simp_all add: userData1_def truthy_string_def stored_password_def)
  have same: "pu_id userData1 = pu_id userData"
    "pu_username userData1 = pu_username userData"
    "pu_email userData1 = pu_email userData"
    "pu_firstName userData1 = pu_firstName userData"
    "pu_lastName userData1 = pu_lastName userData"
    "pu_state userData1 = pu_state userData" "pu_city userData1 = pu_city userData"
    "pu_profileImageUrl userData1 = pu_profileImageUrl userData"
    "pu_createdAt userData1 = pu_createdAt userData"
    by (simp_all add: userData1_def)
  have u: "user_partial_update hash userData now old (set_user userData1 now old)"
    by (simp add: user_partial_update_def set_user_def pw [symmetric] same [symmetric])
  show ?thesis
    by (rule exI [of _ "set_user userData1 now old"]) (intro conjI r g o e u)
qed

text \<open>
  C9: when \<open>updateUser\<close>, \<open>updatePet\<close> or \<open>updateRecipe\<close> is applied to the id of an
  existing row and goes through, the row returned is the row now stored (under the id
  it now has), and it is a partial update of the old row: each column supplied in the
  partial argument has the supplied value (the password: as \<open>updateUser\<close> stores it),
  each column not supplied has its old value, and \<open>updatedAt\<close> is the clock of the
  call. The other rows, the other tables and the sequences are unchanged.
\<close>

theorem updates_are_partial:
  "(first_row (filter (\<lambda>u. u_id u = i) (users d)) = Some old_user \<and>
    updateUser hash now i userData d = (Inr user_result, d_user) \<longrightarrow>
      (\<exists>new. user_result = Some (userWithoutPassword (row_object new)) \<and>
         first_row (filter (\<lambda>u. u_id u = u_id new) (users d_user)) = Some new \<and>
         user_partial_update hash userData now old_user new \<and>
         filter (\<lambda>u. u_id u \<noteq> u_id new) (users d_user) = filter (\<lambda>u. u_id u \<noteq> i) (users d) \<and>
         d_user = d\<lparr>users := users d_user\<rparr>)) \<and>
   (getPet j d = Some old_pet \<and> updatePet now j petData d = (Inr pet_result, d_pet) \<longrightarrow>
      (\<exists>new. pet_result = Some new \<and> getPet (p_id new) d_pet = Some new \<and>
         pet_partial_update petData now old_pet new \<and>
         filter (\<lambda>p. p_id p \<noteq> p_id new) (pets d_pet) = filter (\<lambda>p. p_id p \<noteq> j) (pets d) \<and>
         d_pet = d\<lparr>pets := pets d_pet\<rparr>)) \<and>
   (getRecipe k d = Some old_recipe \<and>
    updateRecipe now k recipeData d = (Inr recipe_result, d_recipe) \<longrightarrow>
      (\<exists>new. recipe_result = Some new \<and> getRecipe (r_id new) d_recipe = Some new \<and>
         recipe_partial_update recipeData now old_recipe new \<and>
         filter (\<lambda>r. r_id r \<noteq> r_id new) (recipes d_recipe)
           = filter (\<lambda>r. r_id r \<noteq> k) (recipes d) \<and>
         d_recipe = d\<lparr>recipes := recipes d_recipe\<rparr>))"
  using updateUser_partial [of i d old_user hash now userData user_result d_user]
    updatePet_partial [of j d old_pet now petData pet_result d_pet]
    updateRecipe_partial [of k d old_recipe now recipeData recipe_result d_recipe]
  by blast

lemma rename_rex_run:
  "getPet 1 kitchen = Some rex \<and>
   updatePet 900 1 rename_rex kitchen = (Inr (Some rex_renamed), kitchen\<lparr>pets := [rex_renamed]\<rparr>)"
  by (simp add: getPet_def updatePet_def set_pet_def supplied_def rename_rex_def Let_def
        rex_renamed_def first_row_def kitchen_defs user_exists_def)

lemma recount_liver_run:
  "getRecipe 2 kitchen = Some liver_mix \<and>
   updateRecipe 900 2 recount_liver kitchen
     = (Inr (Some liver_recounted), kitchen\<lparr>recipes := [tuna_bites, liver_recounted]\<rparr>)"
  by (simp add: getRecipe_def updateRecipe_def set_recipe_def supplied_def recount_liver_def
        liver_recounted_def Let_def first_row_def kitchen_defs user_exists_def
        recipe_referenced_def)

lemma ana_moves_run:
  "first_row (filter (\<lambda>u. u_id u = 1) (users kitchen)) = Some ana \<and>
   updateUser toy_hash 900 1 ana_moves kitchen
     = (Inr (Some (userWithoutPassword (row_object ana_moved))),
        kitchen\<lparr>users := [ana_moved, bob]\<rparr>)"
  by (simp add: updateUser_def set_user_def supplied_def ana_moves_def ana_moved_def Let_def
        truthy_string_def first_row_def kitchen_defs toy_hash_def userWithoutPassword_def
        row_object_def user_referenced_def)

theorem updates_are_partial_witness:
  "first_row (filter (\<lambda>u. u_id u = 1) (users kitchen)) = Some ana \<and>
   updateUser toy_hash 900 1 ana_moves kitchen
     = (Inr (Some (userWithoutPassword (row_object ana_moved))),
        kitchen\<lparr>users := [ana_moved, bob]\<rparr>) \<and>
   (\<exists>new. user_partial_update toy_hash ana_moves 900 ana new \<and> new = ana_moved) \<and>
   u_city ana_moved = Some ''Recife'' \<and> u_username ana_moved = ''ana'' \<and>
   pu_updatedAt ana_moves = Some 5 \<and> u_updatedAt ana_moved = 900 \<and>
   getPet 1 kitchen = Some rex \<and>
   updatePet 900 1 rename_rex kitchen = (Inr (Some rex_renamed), kitchen\<lparr>pets := [rex_renamed]\<rparr>) \<and>
   pet_partial_update rename_rex 900 rex rex_renamed \<and>
   p_id rex_renamed = 5 \<and> getPet 5 (kitchen\<lparr>pets := [rex_renamed]\<rparr>) = Some rex_renamed \<and>
   getRecipe 2 kitchen = Some liver_mix \<and>
   updateRecipe 900 2 recount_liver kitchen
     = (Inr (Some liver_recounted), kitchen\<lparr>recipes := [tuna_bites, liver_recounted]\<rparr>) \<and>
   recipe_partial_update recount_liver 900 liver_mix liver_recounted \<and>
   r_cookCount liver_recounted = 7 \<and> r_createdAt liver_recounted = 250 \<and>
   r_prepTime liver_recounted = 10"
proof -
  note all = updates_are_partial [where i = 1 and j = 1 and k = 2 and d = kitchen
      and hash = toy_hash and now = 900
      and old_user = ana and userData = ana_moves
      and user_result = "Some (userWithoutPassword (row_object ana_moved))"
      and d_user = "kitchen\<lparr>users := [ana_moved, bob]\<rparr>"
      and old_pet = rex and petData = rename_rex
      and pet_result = "Some rex_renamed"
      and d_pet = "kitchen\<lparr>pets := [rex_renamed]\<rparr>"
      and old_recipe = liver_mix and recipeData = recount_liver
      and recipe_result = "Some liver_recounted"
      and d_recipe = "kitchen\<lparr>recipes := [tuna_bites, liver_recounted]\<rparr>"]
  have ids: "u_id ana_moved = 1" "p_id rex_renamed = 5"
    by (simp_all add: ana_moved_def rex_renamed_def ana_def rex_def)
  from all ana_moves_run obtain new where
    n: "first_row (filter (\<lambda>u. u_id u = u_id new) (users (kitchen\<lparr>users := [ana_moved, bob]\<rparr>)))
          = Some new"
      "Some (userWithoutPassword (row_object ana_moved))
          = Some (userWithoutPassword (row_object new))"
      "user_partial_update toy_hash ana_moves 900 ana new"
    by blast
  from n(2) have "u_id new = 1"
    using ids(1) by (simp add: userWithoutPassword_def row_object_def)
  with n(1) have "new = ana_moved"
    by (simp add: first_row_def ana_moved_def ana_def bob_def)
  with n(3) have user: "\<exists>new. user_partial_update toy_hash ana_moves 900 ana new \<and> new = ana_moved"
    by blast
  have facts: "u_city ana_moved = Some ''Recife''" "u_username ana_moved = ''ana''"
    "pu_updatedAt ana_moves = Some 5" "u_updatedAt ana_moved = 900"
    "r_cookCount liver_recounted = 7" "r_createdAt liver_recounted = 250"
    "r_prepTime liver_recounted = 10"
    by (simp_all add: ana_moved_def ana_moves_def ana_def liver_recounted_def liver_mix_def)
  from all rename_rex_run
  have pet: "pet_partial_update rename_rex 900 rex rex_renamed"
    "getPet (p_id rex_renamed) (kitchen\<lparr>pets := [rex_renamed]\<rparr>) = Some rex_renamed"
    by blast+
  from all recount_liver_run
  have recipe: "recipe_partial_update recount_liver 900 liver_mix liver_recounted"
    by blast
  from user pet recipe ids facts ana_moves_run rename_rex_run recount_liver_run
  show ?thesis by simp
qed

section \<open>Cascade on deleting a user\<close>

lemma set_cascade_replies: "set (cascade_replies dead cs) \<subseteq> set cs"
proof (induction dead cs rule: cascade_replies.induct)
  case (1 dead cs)
  show ?case
  proof (cases "filter (reply_to dead) cs = []")
    case True
    then show ?thesis by (simp add: cascade_replies.simps [of dead cs])
  next
    case False
    with 1 have "set (cascade_replies (map c_id (filter (reply_to dead) cs))
                   (filter (\<lambda>c. \<not> reply_to dead c) cs))
                 \<subseteq> set (filter (\<lambda>c. \<not> reply_to dead c) cs)"
      by simp
    moreover have "cascade_replies dead cs =
        cascade_replies (map c_id (filter (reply_to dead) cs))
          (filter (\<lambda>c. \<not> reply_to dead c) cs)"
      using False by (simp add: cascade_replies.simps [of dead cs])
    ultimately show ?thesis by auto
  qed
qed

lemma set_delete_comments: "set (delete_comments doomed cs) \<subseteq> {c \<in> set cs. \<not> doomed c}"
  using set_cascade_replies [of "map c_id (filter doomed cs)" "filter (\<lambda>c. \<not> doomed c) cs"]
  by (auto simp: delete_comments_def)

lemma dead_user:
  "user_exists i d \<Longrightarrow> set (map u_id (filter (\<lambda>u. u_id u = i) (users d))) = {i}"
  by (auto simp: user_exists_def)

lemma delete_user_row_tables:
  assumes "user_exists i d"
  shows "users (delete_user_row i d) = filter (\<lambda>u. u_id u \<noteq> i) (users d)"
    and "pets (delete_user_row i d) = filter (\<lambda>p. p_userId p \<noteq> i) (pets d)"
    and "recipes (delete_user_row i d) = filter (\<lambda>r. r_userId r \<noteq> i) (recipes d)"
    and "set (comments (delete_user_row i d)) \<subseteq> {c \<in> set (comments d). c_userId c \<noteq> i}"
    and "set (favorites (delete_user_row i d)) \<subseteq> {f \<in> set (favorites d). f_userId f \<noteq> i}"
proof -
  note dead = dead_user [OF assms]
  show "users (delete_user_row i d) = filter (\<lambda>u. u_id u \<noteq> i) (users d)"
    by (simp add: delete_user_row_def delete_users_def delete_recipes_def Let_def)
  show "pets (delete_user_row i d) = filter (\<lambda>p. p_userId p \<noteq> i) (pets d)"
    using dead by (simp add: delete_user_row_def delete_users_def delete_recipes_def Let_def)
  show "recipes (delete_user_row i d) = filter (\<lambda>r. r_userId r \<noteq> i) (recipes d)"
    using dead by (simp add: delete_user_row_def delete_users_def delete_recipes_def Let_def)
  define inner where "inner = delete_comments
      (\<lambda>c. c_recipeId c \<in> set (map r_id (filter (\<lambda>r. r_userId r = i) (recipes d))))
      (comments d)"
  have ceq: "comments (delete_user_row i d) = delete_comments (\<lambda>c. c_userId c = i) inner"
    using dead
    by (simp add: delete_user_row_def delete_users_def delete_recipes_def Let_def inner_def)
  have c1: "set (delete_comments (\<lambda>c. c_userId c = i) inner)
              \<subseteq> {c \<in> set inner. \<not> c_userId c = i}"
    by (rule set_delete_comments)
  have c2: "set inner \<subseteq> set (comments d)"
    unfolding inner_def
    by (rule subset_trans [OF set_delete_comments]) (rule Collect_restrict)
  show "set (comments (delete_user_row i d)) \<subseteq> {c \<in> set (comments d). c_userId c \<noteq> i}"
  proof
    fix c assume "c \<in> set (comments (delete_user_row i d))"
    with ceq c1 have "c \<in> set inner" "c_userId c \<noteq> i" by auto
    with c2 show "c \<in> {c \<in> set (comments d). c_userId c \<noteq> i}" by auto
  qed
  have feq: "favorites (delete_user_row i d) =
      filter (\<lambda>f. f_userId f \<noteq> i)
        (filter (\<lambda>f. f_recipeId f \<notin> set (map r_id (filter (\<lambda>r. r_userId r = i) (recipes d))))
           (favorites d))"
    using dead
    by (simp add: delete_user_row_def delete_users_def delete_recipes_def Let_def)
  show "set (favorites (delete_user_row i d)) \<subseteq> {f \<in> set (favorites d). f_userId f \<noteq> i}"
    unfolding feq by auto
qed

text \<open>
  C4: after the row of user \<open>i\<close> is deleted, no pet, recipe, comment or favorite of
  user \<open>i\<close> is left in the tables, so no query of the storage interface returns one:
  the queries by user return nothing, the lookups by id, the recipe listing, the
  favorites of any user and the comments and replies of any recipe or comment return
  no row owned by \<open>i\<close>.
\<close>

theorem user_delete_cascades:
  assumes "user_exists i d"
  shows "\<not> user_exists i (delete_user_row i d) \<and>
     (\<forall>p \<in> set (pets (delete_user_row i d)). p_userId p \<noteq> i) \<and>
     (\<forall>r \<in> set (recipes (delete_user_row i d)). r_userId r \<noteq> i) \<and>
     (\<forall>c \<in> set (comments (delete_user_row i d)). c_userId c \<noteq> i) \<and>
     (\<forall>f \<in> set (favorites (delete_user_row i d)). f_userId f \<noteq> i) \<and>
     getUser i (delete_user_row i d) = None \<and>
     getPetsByUser i (delete_user_row i d) = [] \<and>
     getRecipesByUser i (delete_user_row i d) = [] \<and>
     getFavorites i (delete_user_row i d) = [] \<and>
     (\<forall>k. \<not> isFavorite i k (delete_user_row i d)) \<and>
     (\<forall>k p. getPet k (delete_user_row i d) = Some p \<longrightarrow> p_userId p \<noteq> i) \<and>
     (\<forall>k r. getRecipe k (delete_user_row i d) = Some r \<longrightarrow> r_userId r \<noteq> i) \<and>
     (\<forall>options rs. getRecipes options (delete_user_row i d) = Inr rs
         \<longrightarrow> (\<forall>r \<in> set rs. r_userId r \<noteq> i)) \<and>
     (\<forall>k. \<forall>r \<in> set (getFavorites k (delete_user_row i d)). r_userId r \<noteq> i) \<and>
     (\<forall>k. \<forall>c \<in> set (getComments k (delete_user_row i d)). c_userId c \<noteq> i) \<and>
     (\<forall>k. \<forall>c \<in> set (getReplies k (delete_user_row i d)). c_userId c \<noteq> i)"
proof -
  define d' where "d' = delete_user_row i d"
  note t = delete_user_row_tables [OF assms, folded d'_def]
  have u: "\<not> user_exists i d'" by (auto simp: user_exists_def t(1))
  have p: "\<forall>p \<in> set (pets d'). p_userId p \<noteq> i" by (simp add: t(2))
  have r: "\<forall>r \<in> set (recipes d'). r_userId r \<noteq> i" by (simp add: t(3))
  have c: "\<forall>c \<in> set (comments d'). c_userId c \<noteq> i" using t(4) by blast
  have f: "\<forall>f \<in> set (favorites d'). f_userId f \<noteq> i" using t(5) by blast
  have q1: "getUser i d' = None"
    using u by (auto simp: getUser_def user_exists_def filter_empty_conv split: option.splits)
  have q2: "getPetsByUser i d' = []" using p by (simp add: getPetsByUser_def filter_empty_conv)
  have q3: "getRecipesByUser i d' = []"
    using r by (simp add: getRecipesByUser_def newest_first_def filter_False)
  have q4: "getFavorites i d' = []" using f by (rule getFavorites_empty)
  have q5: "\<forall>k. \<not> isFavorite i k d'" using f by (auto simp: isFavorite_iff)
  have q6: "\<forall>k p. getPet k d' = Some p \<longrightarrow> p_userId p \<noteq> i"
    using p by (auto simp: getPet_def dest!: first_row_Some)
  have q7: "\<forall>k r. getRecipe k d' = Some r \<longrightarrow> r_userId r \<noteq> i"
    using r by (auto simp: getRecipe_def dest!: first_row_Some)
  have q8: "\<forall>options rs. getRecipes options d' = Inr rs \<longrightarrow> (\<forall>r \<in> set rs. r_userId r \<noteq> i)"
    using r set_getRecipes by blast
  have q9: "\<forall>k. \<forall>r \<in> set (getFavorites k d'). r_userId r \<noteq> i"
    using r set_getFavorites by blast
  have q10: "\<forall>k. \<forall>c \<in> set (getComments k d'). c_userId c \<noteq> i"
    using c by (simp add: getComments_def)
  have q11: "\<forall>k. \<forall>c \<in> set (getReplies k d'). c_userId c \<noteq> i"
    using c by (simp add: getReplies_def)
  show ?thesis
    unfolding d'_def [symmetric]
    by (intro conjI u p r c f q1 q2 q3 q4 q5 q6 q7 q8 q9 q10 q11)
qed

lemma kitchen_without_bob:
  "delete_user_row 2 kitchen
     = kitchen\<lparr>users := [ana], comments := [comment_first], favorites := [], followers := []\<rparr>"
  by (simp add: delete_user_row_def delete_users_def delete_recipes_def delete_comments_def
        Let_def kitchen_defs reply_to_def cascade_replies.simps)

theorem user_delete_cascades_witness:
  "user_exists 2 kitchen \<and>
   delete_user_row 2 kitchen
     = kitchen\<lparr>users := [ana], comments := [comment_first], favorites := [], followers := []\<rparr> \<and>
   getFavorites 2 kitchen = [tuna_bites] \<and> getFavorites 2 (delete_user_row 2 kitchen) = [] \<and>
   getComments 1 kitchen = [comment_later, comment_first] \<and>
   getComments 1 (delete_user_row 2 kitchen) = [comment_first] \<and>
   getReplies 1 kitchen = [comment_reply] \<and> getReplies 1 (delete_user_row 2 kitchen) = [] \<and>
   c_userId comment_later = 2 \<and> c_userId comment_reply = 2 \<and> c_userId comment_first \<noteq> 2 \<and>
   getUser 2 (delete_user_row 2 kitchen) = None"
proof -
  have h: "user_exists 2 kitchen" by (simp add: user_exists_def kitchen_defs)
  from user_delete_cascades [OF h]
  have "getFavorites 2 (delete_user_row 2 kitchen) = []"
    and "getUser 2 (delete_user_row 2 kitchen) = None"
    by blast+
  moreover have "getFavorites 2 kitchen = [tuna_bites]"
    "getComments 1 kitchen = [comment_later, comment_first]"
    "getReplies 1 kitchen = [comment_reply]"
    by (simp_all add: getFavorites_def getComments_def getReplies_def newest_first_def
          kitchen_defs)
  moreover have "getComments 1 (delete_user_row 2 kitchen) = [comment_first]"
    "getReplies 1 (delete_user_row 2 kitchen) = []"
    unfolding kitchen_without_bob
    by (simp_all add: getComments_def getReplies_def newest_first_def kitchen_defs)
  moreover have "c_userId comment_later = 2" "c_userId comment_reply = 2"
    "c_userId comment_first \<noteq> 2"
    by (simp_all add: kitchen_defs)
  ultimately show ?thesis using h kitchen_without_bob by simp
qed

section \<open>Handlers in flight\<close>

text \<open>
  Running a handler's process alone is the handler; so what the server reaches one
  request at a time it also reaches with requests in flight.
\<close>

lemma run_Await: "run (Await f) d = run (fst (f d)) (snd (f d))"
  by (cases "f d") simp

lemma run_await_query [simp]: "run (await_query query rest) d = run (rest (query d)) d"
  by (simp add: await_query_def run_Await)

lemma run_await_call [simp]:
  "run (await_call call rest) d = run (rest (fst (call d))) (snd (call d))"
  by (simp add: await_call_def run_Await)

lemma run_authenticated:
  "run (authenticated session handler) d =
     (case authenticate session d of Inl r \<Rightarrow> (r, d) | Inr user \<Rightarrow> run (handler user) d)"
  by (simp add: authenticated_def authenticate_def split: option.splits)

lemma run_process_of: "run (process_of hash now request) d = handle hash now request d"
proof (cases request)
  case (Post_register userData)
  then show ?thesis
    by (simp add: post_register_process_def post_register_def split: prod.splits sum.splits)
next
  case (Post_pet session body upload)
  then show ?thesis
    by (simp add: post_pet_process_def post_pet_def run_authenticated
          split: prod.splits sum.splits)
next
  case (Put_pet session petId body upload)
  then show ?thesis
    by (simp add: put_pet_process_def put_pet_def run_authenticated
          split: prod.splits sum.splits option.splits)
next
  case (Delete_pet session petId)
  then show ?thesis
    by (simp add: delete_pet_process_def delete_pet_def run_authenticated
          split: prod.splits sum.splits option.splits)
next
  case (Post_recipe session body upload)
  then show ?thesis
    by (simp add: post_recipe_process_def post_recipe_def run_authenticated
          split: prod.splits sum.splits)
next
  case (Put_recipe session recipeId body upload)
  then show ?thesis
    by (simp add: put_recipe_process_def put_recipe_def run_authenticated
          split: prod.splits sum.splits option.splits)
next
  case (Delete_recipe session recipeId)
  then show ?thesis
    by (simp add: delete_recipe_process_def delete_recipe_def run_authenticated
          split: prod.splits sum.splits option.splits)
next
  case (Post_cook session recipeId)
  then show ?thesis
    by (simp add: post_cook_process_def post_cook_def run_authenticated
          split: prod.splits sum.splits option.splits)
next
  case (Post_comment session recipeId body)
  then show ?thesis
    by (simp add: post_comment_process_def post_comment_def run_authenticated
          split: prod.splits sum.splits option.splits)
next
  case (Delete_comment session commentId)
  then show ?thesis
    by (simp add: delete_comment_process_def delete_comment_def run_authenticated
          del: first_row_None split: prod.splits sum.splits option.splits)
next
  case (Post_favorite session recipeId)
  then show ?thesis
    by (simp add: post_favorite_process_def post_favorite_def run_authenticated
          split: prod.splits sum.splits option.splits)
next
  case (Delete_favorite session recipeId)
  then show ?thesis
    by (simp add: delete_favorite_process_def delete_favorite_def run_authenticated
          split: prod.splits sum.splits)
next
  case (Post_follow session followingId)
  show ?thesis
  proof (cases "authenticate session d")
    case (Inl r)
    then show ?thesis
      using Post_follow by (simp add: post_follow_process_def post_follow_def run_authenticated)
  next
    case (Inr user)
    show ?thesis
    proof (cases "getUser followingId d = None \<or> followingId = uo_id user
                    \<or> isFollowing (uo_id user) followingId d")
      case True
      then show ?thesis
        using Post_follow Inr
        by (auto simp: post_follow_process_def post_follow_def run_authenticated)
    next
      case False
      then show ?thesis
        using Post_follow Inr
        by (simp add: post_follow_process_def post_follow_def run_authenticated
              split: prod.splits sum.splits)
    qed
  qed
next
  case (Delete_follow session followingId)
  then show ?thesis
    by (simp add: delete_follow_process_def delete_follow_def run_authenticated
          split: prod.splits sum.splits)
next
  case (Put_profile session body upload)
  then show ?thesis
    by (simp add: put_profile_process_def put_profile_def run_authenticated
          split: prod.splits sum.splits)
qed

lemma serving_run: "serving d (ps1 @ p # ps2) \<Longrightarrow> serving (snd (run p d)) (ps1 @ ps2)"
proof (induction p arbitrary: d)
  case (Respond r)
  then show ?case by (simp add: serving.respond)
next
  case (Await f)
  from Await.prems have "serving (snd (f d)) (ps1 @ fst (f d) # ps2)"
    by (rule serving.advance)
  moreover have "f d \<in> range f" "fst (f d) \<in> Basic_BNFs.fsts (f d)"
    by (auto simp: fsts.simps)
  ultimately have "serving (snd (run (fst (f d)) (snd (f d)))) (ps1 @ ps2)"
    by (rule Await.IH [rotated 2])
  then show ?case by (subst run_Await)
qed

lemma sequential_serving: "reachable_sequentially d \<Longrightarrow> serving d []"
proof (induction rule: reachable_sequentially.induct)
  case start
  show ?case by (rule serving.boot)
next
  case (step d hash now request)
  from step.IH have "serving d ([] @ [process_of hash now request])" by (rule serving.arrive)
  then have "serving d ([] @ process_of hash now request # [])" by simp
  then have "serving (snd (run (process_of hash now request) d)) ([] @ [])"
    by (rule serving_run)
  then show ?case by (simp add: run_process_of)
qed

lemma sequential_concurrent: "reachable_sequentially d \<Longrightarrow> reachable_concurrently d"
  unfolding reachable_concurrently_def using sequential_serving by blast

lemma serving_step_at:
  assumes "serving d ps"
  shows "serving (fst (step_at i (d, ps))) (snd (step_at i (d, ps)))"
proof (cases "i < length ps")
  case False
  then show ?thesis using assms by simp
next
  case True
  then have split: "ps = take i ps @ ps ! i # drop (Suc i) ps" by (rule id_take_nth_drop)
  show ?thesis
  proof (cases "ps ! i")
    case (Respond r)
    with assms split have "serving d (take i ps @ Respond r # drop (Suc i) ps)" by simp
    then have "serving d (take i ps @ drop (Suc i) ps)" by (rule serving.respond)
    then show ?thesis using True Respond by simp
  next
    case (Await f)
    with assms split have "serving d (take i ps @ Await f # drop (Suc i) ps)" by simp
    then have "serving (snd (f d)) (take i ps @ fst (f d) # drop (Suc i) ps)"
      by (rule serving.advance)
    then show ?thesis using True Await by simp
  qed
qed

lemma serving_schedule:
  "serving (fst s) (snd s) \<Longrightarrow> serving (fst (schedule order s)) (snd (schedule order s))"
proof (induction order arbitrary: s)
  case Nil
  then show ?case by simp
next
  case (Cons i order)
  obtain d ps where s: "s = (d, ps)" by (cases s)
  from Cons.prems have "serving (fst (step_at i s)) (snd (step_at i s))"
    unfolding s by (simp only: fst_conv snd_conv) (rule serving_step_at)
  then show ?case by (simp add: Cons.IH)
qed

lemma race_schedule:
  "schedule [0, 0, 0, 1, 1, 1, 0, 1, 0, 0]
     (kitchen, [process_of toy_hash 900 (Post_favorite (Some 2) 2),
                process_of toy_hash 901 (Post_favorite (Some 2) 2)])
   = (raced_kitchen, [])"
  by (simp add: post_favorite_process_def authenticated_def await_query_def await_call_def
        getUser_def getRecipe_def isFavorite_def addFavorite_def Let_def first_row_def
        user_exists_def recipe_exists_def raced_kitchen_def bob_favorite_again_def
        bob_favorite_twice_def kitchen_defs userWithoutPassword_def row_object_def)

section \<open>One favorite per user and recipe\<close>

lemma grows_refl: "grows d d"
  by (simp add: grows_def)

lemma grows_sound: "favorites_sound d \<Longrightarrow> grows d d' \<Longrightarrow> favorites_sound d'"
  by (simp add: favorites_sound_def grows_def)

lemma grows_createUser: "grows d (snd (createUser hash now userData d))"
  by (auto simp: grows_def createUser_def Let_def user_exists_def recipe_exists_def)

lemma user_exists_rewritten:
  assumes "user_exists k d"
    and "k = i \<Longrightarrow> \<forall>old \<in> set (users d). u_id old = i \<longrightarrow> u_id (g old) = i"
  shows "user_exists k (d\<lparr>users := map (\<lambda>u. if u_id u = i then g u else u) (users d)\<rparr>)"
proof -
  from assms(1) obtain u where u: "u \<in> set (users d)" "u_id u = k"
    by (auto simp: user_exists_def)
  show ?thesis
  proof (cases "k = i")
    case True
    with u assms(2) have "g u \<in> set (map (\<lambda>u. if u_id u = i then g u else u) (users d))"
      "u_id (g u) = k"
      by (auto simp: image_iff intro!: bexI [of _ u])
    then show ?thesis unfolding user_exists_def by (auto simp del: set_map)
  next
    case False
    with u have "u \<in> set (map (\<lambda>u. if u_id u = i then g u else u) (users d))"
      by (auto simp: image_iff intro!: bexI [of _ u])
    with u show ?thesis unfolding user_exists_def by (auto simp del: set_map)
  qed
qed

lemma recipe_exists_rewritten:
  assumes "recipe_exists k d"
    and "k = i \<Longrightarrow> \<forall>old \<in> set (recipes d). r_id old = i \<longrightarrow> r_id (g old) = i"
  shows "recipe_exists k (d\<lparr>recipes := map (\<lambda>r. if r_id r = i then g r else r) (recipes d)\<rparr>)"
proof -
  from assms(1) obtain r where r: "r \<in> set (recipes d)" "r_id r = k"
    by (auto simp: recipe_exists_def)
  show ?thesis
  proof (cases "k = i")
    case True
    with r assms(2) have "g r \<in> set (map (\<lambda>r. if r_id r = i then g r else r) (recipes d))"
      "r_id (g r) = k"
      by (auto simp: image_iff intro!: bexI [of _ r])
    then show ?thesis unfolding recipe_exists_def by (auto simp del: set_map)
  next
    case False
    with r have "r \<in> set (map (\<lambda>r. if r_id r = i then g r else r) (recipes d))"
      by (auto simp: image_iff intro!: bexI [of _ r])
    with r show ?thesis unfolding recipe_exists_def by (auto simp del: set_map)
  qed
qed

lemma grows_updateUser: "grows d (snd (updateUser hash now i userData d))"
proof -
  define ud where
    "ud = (if truthy_string (pu_password userData)
           then userData\<lparr>pu_password := Some (hash (the (pu_password userData)) 10)\<rparr>
           else userData)"
  define d' where
    "d' = d\<lparr>users := map (\<lambda>u. if u_id u = i then set_user ud now u else u) (users d)\<rparr>"
  have "snd (updateUser hash now i userData d) = d \<or>
        (snd (updateUser hash now i userData d) = d' \<and>
         \<not> (\<exists>old \<in> set (users d). u_id old = i \<and> u_id (set_user ud now old) \<noteq> u_id old
               \<and> user_referenced i d))"
    unfolding updateUser_def Let_def ud_def [symmetric] d'_def by simp
  then show ?thesis
  proof (elim disjE conjE)
    assume "snd (updateUser hash now i userData d) = d"
    then show ?thesis by (simp add: grows_refl)
  next
    assume eq: "snd (updateUser hash now i userData d) = d'"
      and fk: "\<not> (\<exists>old \<in> set (users d). u_id old = i \<and> u_id (set_user ud now old) \<noteq> u_id old
               \<and> user_referenced i d)"
    have "user_exists (f_userId f) d'"
      if f: "f \<in> set (favorites d)" and ex: "user_exists (f_userId f) d" for f
      unfolding d'_def
    proof (rule user_exists_rewritten [OF ex])
      assume "f_userId f = i"
      with f have "user_referenced i d" by (auto simp: user_referenced_def)
      with fk show "\<forall>old \<in> set (users d). u_id old = i \<longrightarrow> u_id (set_user ud now old) = i"
        by auto
    qed
    moreover have "favorites d' = favorites d" "recipes d' = recipes d"
      by (simp_all add: d'_def)
    ultimately have "grows d d'" by (simp add: grows_def recipe_exists_def)
    then show ?thesis by (simp add: eq)
  qed
qed

lemma grows_createPet: "grows d (snd (createPet now petData d))"
  by (simp add: grows_def createPet_def Let_def user_exists_def recipe_exists_def)

lemma grows_updatePet: "grows d (snd (updatePet now i petData d))"
  by (simp add: grows_def updatePet_def Let_def user_exists_def recipe_exists_def)

lemma grows_deletePet: "grows d (snd (deletePet i d))"
  by (simp add: grows_def deletePet_def user_exists_def recipe_exists_def)

lemma grows_createRecipe: "grows d (snd (createRecipe now recipeData d))"
  by (auto simp: grows_def createRecipe_def Let_def user_exists_def recipe_exists_def)

lemma grows_updateRecipe: "grows d (snd (updateRecipe now i recipeData d))"
proof -
  define d' where
    "d' = d\<lparr>recipes := map (\<lambda>r. if r_id r = i then set_recipe recipeData now r else r)
                            (recipes d)\<rparr>"
  have "snd (updateRecipe now i recipeData d) = d \<or>
        (snd (updateRecipe now i recipeData d) = d' \<and>
         \<not> (\<exists>old \<in> set (recipes d). r_id old = i \<and>
               r_id (set_recipe recipeData now old) \<noteq> r_id old \<and> recipe_referenced i d))"
    unfolding updateRecipe_def Let_def d'_def by auto
  then show ?thesis
  proof (elim disjE conjE)
    assume "snd (updateRecipe now i recipeData d) = d"
    then show ?thesis by (simp add: grows_refl)
  next
    assume eq: "snd (updateRecipe now i recipeData d) = d'"
      and fk: "\<not> (\<exists>old \<in> set (recipes d). r_id old = i \<and>
               r_id (set_recipe recipeData now old) \<noteq> r_id old \<and> recipe_referenced i d)"
    have "recipe_exists (f_recipeId f) d'"
      if f: "f \<in> set (favorites d)" and ex: "recipe_exists (f_recipeId f) d" for f
      unfolding d'_def
    proof (rule recipe_exists_rewritten [OF ex])
      assume "f_recipeId f = i"
      with f have "recipe_referenced i d" by (auto simp: recipe_referenced_def)
      with fk show "\<forall>old \<in> set (recipes d). r_id old = i
                      \<longrightarrow> r_id (set_recipe recipeData now old) = i"
        by auto
    qed
    moreover have "favorites d' = favorites d" "users d' = users d"
      by (simp_all add: d'_def)
    ultimately have "grows d d'" by (simp add: grows_def user_exists_def)
    then show ?thesis by (simp add: eq)
  qed
qed

lemma grows_createComment: "grows d (snd (createComment now commentData d))"
  by (simp add: grows_def createComment_def Let_def user_exists_def recipe_exists_def)

lemma grows_deleteComment: "grows d (snd (deleteComment i d))"
  by (simp add: grows_def deleteComment_def user_exists_def recipe_exists_def)

lemma grows_follow: "grows d (snd (follow now followerData d))"
  by (simp add: grows_def follow_def Let_def user_exists_def recipe_exists_def)

lemma grows_unfollow: "grows d (snd (unfollow a b d))"
  by (simp add: grows_def unfollow_def user_exists_def recipe_exists_def)

lemmas grows_storage = grows_refl grows_createUser grows_updateUser grows_createPet
  grows_updatePet grows_deletePet grows_createRecipe grows_updateRecipe grows_createComment
  grows_deleteComment grows_follow grows_unfollow

lemma grows_post_register: "grows d (snd (post_register hash now userData d))"
  by (simp add: post_register_def grows_storage)

lemma grows_post_pet: "grows d (snd (post_pet now session body file d))"
  by (simp add: post_pet_def grows_storage split: sum.splits)

lemma grows_put_pet: "grows d (snd (put_pet now session petId body file d))"
  by (simp add: put_pet_def grows_storage split: sum.splits option.splits)

lemma grows_delete_pet: "grows d (snd (delete_pet session petId d))"
  by (simp add: delete_pet_def grows_storage split: sum.splits option.splits)

lemma grows_post_recipe: "grows d (snd (post_recipe now session body file d))"
  by (simp add: post_recipe_def grows_storage split: sum.splits)

lemma grows_put_recipe: "grows d (snd (put_recipe now session recipeId body file d))"
  by (simp add: put_recipe_def grows_storage split: sum.splits option.splits)

lemma grows_post_cook: "grows d (snd (post_cook now session recipeId d))"
  by (simp add: post_cook_def incrementCookCount_rejects grows_storage
        split: sum.splits option.splits)

lemma grows_post_comment: "grows d (snd (post_comment now session recipeId body d))"
  by (simp add: post_comment_def grows_storage split: sum.splits option.splits)

lemma grows_delete_comment: "grows d (snd (delete_comment session commentId d))"
  by (simp add: delete_comment_def grows_storage split: sum.splits option.splits)

lemma grows_post_follow: "grows d (snd (post_follow now session followingId d))"
  by (simp add: post_follow_def grows_storage split: sum.splits)

lemma grows_delete_follow: "grows d (snd (delete_follow session followingId d))"
  by (simp add: delete_follow_def grows_storage split: sum.splits)

lemma grows_put_profile: "grows d (snd (put_profile hash now session body file d))"
  by (simp add: put_profile_def grows_storage split: sum.splits)

lemma sound_deleteRecipe:
  assumes "favorites_sound d"
  shows "favorites_sound (snd (deleteRecipe i d))"
proof -
  define dead where "dead = set (map r_id (filter (\<lambda>r. r_id r = i) (recipes d)))"
  define d' where "d' = snd (deleteRecipe i d)"
  have f: "favorites d' = filter (\<lambda>f. f_recipeId f \<notin> dead) (favorites d)"
    and r: "recipes d' = filter (\<lambda>r. r_id r \<noteq> i) (recipes d)"
    and u: "users d' = users d"
    by (simp_all add: d'_def dead_def deleteRecipe_def delete_recipes_def Let_def)
  from assms have dist: "distinct (map (\<lambda>f. (f_userId f, f_recipeId f)) (favorites d))"
    and refs: "\<forall>f \<in> set (favorites d).
        f_userId f \<noteq> 0 \<and> user_exists (f_userId f) d \<and> recipe_exists (f_recipeId f) d"
    by (simp_all add: favorites_sound_def)
  have "distinct (map (\<lambda>f. (f_userId f, f_recipeId f)) (favorites d'))"
    unfolding f using dist by (rule distinct_map_filter)
  moreover have "f_userId x \<noteq> 0 \<and> user_exists (f_userId x) d' \<and> recipe_exists (f_recipeId x) d'"
    if x: "x \<in> set (favorites d')" for x
  proof -
    from x f have xin: "x \<in> set (favorites d)" and alive: "f_recipeId x \<notin> dead" by auto
    from refs xin have a: "f_userId x \<noteq> 0" "user_exists (f_userId x) d"
      and "recipe_exists (f_recipeId x) d" by auto
    then obtain rc where rc: "rc \<in> set (recipes d)" "r_id rc = f_recipeId x"
      by (auto simp: recipe_exists_def)
    with alive have "r_id rc \<noteq> i" by (auto simp: dead_def)
    with rc have "recipe_exists (f_recipeId x) d'" by (auto simp: recipe_exists_def r)
    moreover from a(2) have "user_exists (f_userId x) d'" by (simp add: user_exists_def u)
    ultimately show ?thesis using a(1) by simp
  qed
  ultimately show ?thesis unfolding d'_def [symmetric] by (simp add: favorites_sound_def)
qed

lemma sound_delete_recipe:
  "favorites_sound d \<Longrightarrow> favorites_sound (snd (delete_recipe session recipeId d))"
  by (simp add: delete_recipe_def sound_deleteRecipe split: sum.splits option.splits)

lemma sound_removeFavorite:
  assumes "favorites_sound d"
  shows "favorites_sound (snd (removeFavorite a b d))"
proof -
  have "distinct (map (\<lambda>f. (f_userId f, f_recipeId f))
          (filter (\<lambda>f. \<not> (f_userId f = a \<and> f_recipeId f = b)) (favorites d)))"
    using assms by (intro distinct_map_filter) (simp add: favorites_sound_def)
  then show ?thesis
    using assms
    by (simp add: favorites_sound_def removeFavorite_def user_exists_def recipe_exists_def)
qed

lemma sound_delete_favorite:
  "favorites_sound d \<Longrightarrow> favorites_sound (snd (delete_favorite session recipeId d))"
  by (simp add: delete_favorite_def sound_removeFavorite split: sum.splits)

lemma sound_addFavorite:
  assumes "favorites_sound d" and "if_userId favoriteData \<noteq> 0"
    and "\<not> isFavorite (if_userId favoriteData) (if_recipeId favoriteData) d"
  shows "favorites_sound (snd (addFavorite now favoriteData d))"
proof -
  define row where "row = \<lparr>f_id = Suc (favorites_seq d), f_userId = if_userId favoriteData,
                 f_recipeId = if_recipeId favoriteData, f_createdAt = now\<rparr>"
  define d1 where "d1 = d\<lparr>favorites_seq := Suc (favorites_seq d)\<rparr>"
  have s1: "favorites_sound d1"
    using assms(1) by (simp add: d1_def favorites_sound_def user_exists_def recipe_exists_def)
  have "snd (addFavorite now favoriteData d) = d1 \<or>
        (snd (addFavorite now favoriteData d) = d1\<lparr>favorites := favorites d @ [row]\<rparr> \<and>
         user_exists (f_userId row) d \<and> recipe_exists (f_recipeId row) d)"
    by (simp add: addFavorite_def Let_def row_def d1_def)
  then show ?thesis
  proof (elim disjE conjE)
    assume "snd (addFavorite now favoriteData d) = d1"
    then show ?thesis using s1 by simp
  next
    assume added: "snd (addFavorite now favoriteData d) = d1\<lparr>favorites := favorites d @ [row]\<rparr>"
      "user_exists (f_userId row) d" "recipe_exists (f_recipeId row) d"
    have new: "(f_userId row, f_recipeId row)
                 \<notin> set (map (\<lambda>f. (f_userId f, f_recipeId f)) (favorites d))"
      using assms(3) by (auto simp: isFavorite_iff row_def)
    have "f_userId row \<noteq> 0" using assms(2) by (simp add: row_def)
    then have "favorites_sound (d1\<lparr>favorites := favorites d @ [row]\<rparr>)"
      using assms(1) added(2,3) new
      by (auto simp: favorites_sound_def d1_def user_exists_def recipe_exists_def)
    then show ?thesis using added(1) by simp
  qed
qed

lemma sound_post_favorite:
  assumes "favorites_sound d"
  shows "favorites_sound (snd (post_favorite now session recipeId d))"
proof (cases "authenticate session d")
  case (Inl r)
  then show ?thesis using assms by (simp add: post_favorite_def)
next
  case (Inr user)
  note auth = authenticate_Inr [OF Inr]
  show ?thesis
  proof (cases "getRecipe recipeId d = None \<or> isFavorite (uo_id user) recipeId d")
    case True
    then show ?thesis using assms Inr by (auto simp: post_favorite_def split: option.splits)
  next
    case False
    then have "snd (post_favorite now session recipeId d)
                 = snd (addFavorite now \<lparr>if_userId = uo_id user, if_recipeId = recipeId\<rparr> d)"
      using Inr by (auto simp: post_favorite_def split: option.splits)
    moreover have "favorites_sound
        (snd (addFavorite now \<lparr>if_userId = uo_id user, if_recipeId = recipeId\<rparr> d))"
      using assms auth False by (intro sound_addFavorite) simp_all
    ultimately show ?thesis by simp
  qed
qed

lemma sound_empty: "favorites_sound empty_db"
  by (simp add: favorites_sound_def empty_db_def)

lemma sound_handle: "favorites_sound d \<Longrightarrow> favorites_sound (snd (handle hash now request d))"
  by (cases request)
    (simp_all add: grows_sound grows_post_register grows_post_pet grows_put_pet grows_delete_pet
       grows_post_recipe grows_put_recipe grows_post_cook grows_post_comment grows_delete_comment
       grows_post_follow grows_delete_follow grows_put_profile sound_delete_recipe
       sound_post_favorite sound_delete_favorite)

lemma reachable_sound: "reachable_sequentially d \<Longrightarrow> favorites_sound d"
  by (induction rule: reachable_sequentially.induct) (simp_all add: sound_empty sound_handle)

text \<open>
  C5 as stated, for every state the handlers reach, fails when two requests are in
  flight: the favorite route awaits \<open>isFavorite\<close> and then awaits \<open>addFavorite\<close>, and
  the table has no unique constraint. Two favorite requests of bob's for the recipe
  \<open>Liver mix\<close>, both checked before either inserts, leave two rows for the pair.
\<close>

theorem favorite_pair_race:
  "reachable_concurrently raced_kitchen \<and>
   length (filter (\<lambda>f. f_userId f = 2 \<and> f_recipeId f = 2) (favorites raced_kitchen)) = 2"
proof -
  from sequential_serving [OF kitchen_reachable]
  have "serving kitchen ([] @ [process_of toy_hash 900 (Post_favorite (Some 2) 2)])"
    by (rule serving.arrive)
  then have "serving kitchen ([process_of toy_hash 900 (Post_favorite (Some 2) 2)]
               @ [process_of toy_hash 901 (Post_favorite (Some 2) 2)])"
    unfolding append_Nil by (rule serving.arrive)
  then have "serving (fst (kitchen, [process_of toy_hash 900 (Post_favorite (Some 2) 2),
                process_of toy_hash 901 (Post_favorite (Some 2) 2)]))
               (snd (kitchen, [process_of toy_hash 900 (Post_favorite (Some 2) 2),
                process_of toy_hash 901 (Post_favorite (Some 2) 2)]))"
    by simp
  from serving_schedule [OF this, of "[0, 0, 0, 1, 1, 1, 0, 1, 0, 0]"]
  have "serving raced_kitchen []" by (simp only: race_schedule fst_conv snd_conv)
  then have "reachable_concurrently raced_kitchen"
    unfolding reachable_concurrently_def by blast
  moreover have "length (filter (\<lambda>f. f_userId f = 2 \<and> f_recipeId f = 2)
                   (favorites raced_kitchen)) = 2"
    by (simp add: raced_kitchen_def bob_favorite_def bob_favorite_again_def
          bob_favorite_twice_def)
  ultimately show ?thesis by simp
qed

text \<open>
  C5, amended: in every database the server reaches from the empty one when it serves
  one request at a time, each pair of user and recipe has at most one row of
  \<open>favorites\<close>; and there, whenever the pair is a favorite, the favorite route called by
  that user for that recipe answers 400 \<open>Recipe already favorited\<close> and adds nothing.
\<close>

theorem favorite_pair_unique:
  assumes "reachable_sequentially d"
  shows "(\<forall>userId recipeId.
            length (filter (\<lambda>f. f_userId f = userId \<and> f_recipeId f = recipeId) (favorites d))
              \<le> 1) \<and>
         (\<forall>now userId recipeId. isFavorite userId recipeId d \<longrightarrow>
            post_favorite now (Some userId) recipeId d
              = ((400, Message ''Recipe already favorited''), d))"
proof -
  from reachable_sound [OF assms] have
    dist: "distinct (map (\<lambda>f. (f_userId f, f_recipeId f)) (favorites d))"
    and refs: "\<forall>f \<in> set (favorites d).
        f_userId f \<noteq> 0 \<and> user_exists (f_userId f) d \<and> recipe_exists (f_recipeId f) d"
    by (simp_all add: favorites_sound_def)
  have once: "length (filter (\<lambda>f. f_userId f = u \<and> f_recipeId f = r) (favorites d)) \<le> 1"
    for u r
    using distinct_key_once [OF dist, of "(u, r)"] by (simp add: prod_eq_iff)
  have again: "post_favorite now (Some u) r d = ((400, Message ''Recipe already favorited''), d)"
    if fav: "isFavorite u r d" for now u r
  proof -
    from fav refs have "u \<noteq> 0" "user_exists u d" "recipe_exists r d"
      by (auto simp: isFavorite_iff)
    from authenticate_exists [OF this(1,2)] obtain user
      where "authenticate (Some u) d = Inr user" "uo_id user = u" by blast
    moreover from \<open>recipe_exists r d\<close> obtain rc where "getRecipe r d = Some rc"
      using getRecipe_exists [of r d] by auto
    ultimately show ?thesis using fav by (simp add: post_favorite_def)
  qed
  from once again show ?thesis by blast
qed

theorem favorite_pair_unique_witness:
  "reachable_sequentially kitchen \<and> favorites kitchen = [bob_favorite] \<and> isFavorite 2 1 kitchen \<and>
   length (filter (\<lambda>f. f_userId f = 2 \<and> f_recipeId f = 1) (favorites kitchen)) \<le> 1 \<and>
   post_favorite 900 (Some 2) 1 kitchen = ((400, Message ''Recipe already favorited''), kitchen)"
proof -
  have fav: "isFavorite 2 1 kitchen"
    by (simp add: isFavorite_def first_row_def kitchen_defs)
  have "favorites kitchen = [bob_favorite]" by (simp add: kitchen_def)
  with favorite_pair_unique [OF kitchen_reachable] fav kitchen_reachable
  show ?thesis by blast
qed

section \<open>Comments and replies\<close>

text \<open>
  C7: \<open>getComments recipeId\<close> returns exactly the comments of the recipe that have no
  parent (as a multiset of rows: each such row once), newest first, and so no comment
  with a parent; \<open>getReplies commentId\<close> returns exactly the comments whose parent is
  \<open>commentId\<close>, newest first.
\<close>

theorem comments_top_level_and_replies:
  "mset (getComments recipeId d) =
     mset (filter (\<lambda>c. c_recipeId c = recipeId \<and> c_parentId c = None) (comments d)) \<and>
   sorted_wrt (\<lambda>a b. c_createdAt b \<le> c_createdAt a) (getComments recipeId d) \<and>
   (\<forall>c \<in> set (getComments recipeId d). c_parentId c = None) \<and>
   mset (getReplies commentId d) =
     mset (filter (\<lambda>c. c_parentId c = Some commentId) (comments d)) \<and>
   sorted_wrt (\<lambda>a b. c_createdAt b \<le> c_createdAt a) (getReplies commentId d)"
  by (simp add: getComments_def getReplies_def sorted_newest_first)

theorem comments_top_level_and_replies_witness:
  "getComments 1 kitchen = [comment_later, comment_first] \<and>
   getReplies 1 kitchen = [comment_reply] \<and>
   mset (getComments 1 kitchen) = mset [comment_first, comment_later] \<and>
   c_parentId comment_later = None \<and> c_parentId comment_first = None \<and>
   c_parentId comment_reply = Some 1"
  using comments_top_level_and_replies [of 1 kitchen 1]
  by (simp add: getComments_def getReplies_def newest_first_def kitchen_defs)

section \<open>Deletes report success\<close>

text \<open>
  C8: \<open>deletePet\<close>, \<open>deleteRecipe\<close> and \<open>deleteComment\<close> return true for every id and
  every database, whether or not a row has that id.
\<close>

theorem delete_reports_success:
  "fst (deletePet i d) = True \<and> fst (deleteRecipe i d) = True \<and> fst (deleteComment i d) = True"
  by (simp add: deletePet_def deleteRecipe_def deleteComment_def)

theorem delete_reports_success_witness:
  "getPet 7 kitchen = None \<and> fst (deletePet 7 kitchen) = True \<and>
   getRecipe 7 kitchen = None \<and> fst (deleteRecipe 7 kitchen) = True \<and>
   filter (\<lambda>c. c_id c = 7) (comments kitchen) = [] \<and> fst (deleteComment 7 kitchen) = True \<and>
   getPet 1 kitchen = Some rex \<and> fst (deletePet 1 kitchen) = True"
  using delete_reports_success [of 7 kitchen] delete_reports_success [of 1 kitchen]
  by (simp add: getPet_def getRecipe_def first_row_def kitchen_defs)

section \<open>Followers and following\<close>

text \<open>
  C10: every user object returned by \<open>getFollowers\<close> and by \<open>getFollowing\<close> has no
  \<open>password\<close> key.
\<close>

theorem follow_lists_without_password:
  "(\<forall>u \<in> set (getFollowers userId d). uo_password u = None) \<and>
   (\<forall>u \<in> set (getFollowing userId d). uo_password u = None)"
  by (simp add: getFollowers_def getFollowing_def userWithoutPassword_def)

theorem follow_lists_without_password_witness:
  "getFollowers 1 kitchen = [userWithoutPassword (row_object bob)] \<and>
   getFollowing 2 kitchen = [userWithoutPassword (row_object ana)] \<and>
   uo_password (userWithoutPassword (row_object bob)) = None \<and>
   uo_password (userWithoutPassword (row_object ana)) = None \<and>
   uo_password (row_object bob) = Some ''$2b$10$bob''"
  using follow_lists_without_password [of 1 kitchen] follow_lists_without_password [of 2 kitchen]
  by (simp add: getFollowers_def getFollowing_def kitchen_defs userWithoutPassword_def row_object_def)

end
